theory Spec2Isabelle
  imports Complex_Main
begin

section \<open>Common model of the Python values\<close>

text \<open>
  The programs compute with Python floats. Two models of the float arithmetic are used.
  In the first a finite float is a real number and the arithmetic on finite floats is exact
  real arithmetic: it describes which statements run, which lookups are made and what is
  raised, and leaves rounding and overflow out. The second, binary64 arithmetic with
  rounding to nearest and overflow to infinity, is defined in its own section below; the
  solver and the constructor of the flash separator are modelled with it, since what they
  compute depends on the rounding. The exceptions of the source are values of the type
  \<open>exn\<close>; a computation that may raise returns \<open>exn + 'a\<close> with \<open>Inl\<close> for the
  exception.
\<close>

datatype exn =
    ZeroDivisionError
  | UnboundLocalError
  | TypeError
  | RuntimeError string
  | ValueError string

text \<open>Sequencing of two steps that may raise: the second runs when the first returned.\<close>

definition and_then :: "exn + 'a \<Rightarrow> ('a \<Rightarrow> exn + 'b) \<Rightarrow> exn + 'b" where
  "and_then m k = (case m of Inl e \<Rightarrow> Inl e | Inr x \<Rightarrow> k x)"

text \<open>Python's \<open>x / y\<close> on floats: a zero divisor raises.\<close>

definition py_div :: "real \<Rightarrow> real \<Rightarrow> exn + real" where
  "py_div x y = (if y = 0 then Inl ZeroDivisionError else Inr (x / y))"

section \<open>The property solver (hw-1/programs/property\_solver.py)\<close>

text \<open>
  \<open>call_coolprop_cli\<close> runs the property command line in a child process and either
  returns the float it printed or raises. It is the external property service of the
  solver and a parameter of the model:
  \<open>call_coolprop_cli prop input1_type input1_value input2_type input2_value fluid\<close>.
\<close>

type_synonym cli = "string \<Rightarrow> string \<Rightarrow> real \<Rightarrow> string \<Rightarrow> real \<Rightarrow> string \<Rightarrow> exn + real"

text \<open>
  What \<open>solve_property\<close> prints, one value per group of \<open>print\<close> calls: the header,
  the line of a successful iteration (iteration + 1, guess, actual value, error), the line
  of a failed iteration, the block printed on convergence and the block printed when the
  iterations are used up (guess, value, error, iterations).
\<close>

datatype line =
    Header
  | IterLine int real real real
  | IterError int real exn
  | ConvergedLines real real real int
  | NotConvergedLines real real real int

text \<open>
  How one pass through the loop body ends: with the \<open>return\<close> of line 99, with the
  \<open>raise\<close> of line 111 (or an exception of the handler itself), or by going on with new
  values of \<open>low\<close>, \<open>high\<close> and \<open>actual_value\<close>. The variable \<open>actual_value\<close> is
  unbound (\<open>None\<close>) until the first lookup has returned.
\<close>

datatype flow =
    Return "real \<times> real \<times> int"
  | Raise exn
  | Continue real real "real option"

text \<open>The \<open>except Exception as e\<close> block, lines 107 to 116.\<close>

definition except_handler ::
  "real \<Rightarrow> int \<Rightarrow> real \<Rightarrow> real \<Rightarrow> real \<Rightarrow> real option \<Rightarrow> exn \<Rightarrow> line list \<times> flow" where
  "except_handler target_value iteration guess low high actual_value e =
     ([IterError (iteration + 1) guess e],
      if iteration = 0 then Raise e
      else (case actual_value of
              None \<Rightarrow> Raise UnboundLocalError
            | Some a \<Rightarrow>
                if a < target_value then Continue guess high actual_value
                else Continue low guess actual_value))"

text \<open>
  The body of the \<open>for\<close> loop, lines 77 to 116. The lookup and the division are inside
  the \<open>try\<close>; when the division raises, \<open>actual_value\<close> has already been assigned.
\<close>

definition loop_body ::
  "(real \<Rightarrow> exn + real) \<Rightarrow> real \<Rightarrow> real \<Rightarrow> int \<Rightarrow> real \<Rightarrow> real \<Rightarrow> real option
     \<Rightarrow> line list \<times> flow" where
  "loop_body f target_value tolerance iteration low high actual_value =
     (let guess = (low + high) / 2 in
      case f guess of
        Inl e \<Rightarrow> except_handler target_value iteration guess low high actual_value e
      | Inr a \<Rightarrow>
          (case py_div \<bar>a - target_value\<bar> \<bar>target_value\<bar> of
             Inl e \<Rightarrow> except_handler target_value iteration guess low high (Some a) e
           | Inr error \<Rightarrow>
               if error < tolerance
               then ([IterLine (iteration + 1) guess a error,
                      ConvergedLines guess a error (iteration + 1)],
                     Return (guess, a, iteration + 1))
               else ([IterLine (iteration + 1) guess a error],
                     if a < target_value then Continue guess high (Some a)
                     else Continue low guess (Some a))))"

text \<open>
  \<open>for iteration in range(max_iterations)\<close>, started at \<open>iteration\<close>. The result
  \<open>Continue low high actual_value\<close> means that the loop ran to its end.
\<close>

function bisect ::
  "(real \<Rightarrow> exn + real) \<Rightarrow> real \<Rightarrow> real \<Rightarrow> int \<Rightarrow> int \<Rightarrow> real \<Rightarrow> real \<Rightarrow> real option
     \<Rightarrow> line list \<times> flow" where
  "bisect f target_value tolerance max_iterations iteration low high actual_value =
     (if iteration < max_iterations then
        (case loop_body f target_value tolerance iteration low high actual_value of
           (out, Continue low' high' actual_value') \<Rightarrow>
             (case bisect f target_value tolerance max_iterations (iteration + 1)
                     low' high' actual_value' of
                (out', fl) \<Rightarrow> (out @ out', fl))
         | (out, fl) \<Rightarrow> (out, fl))
      else ([], Continue low high actual_value))"
  by pat_completeness auto
termination
  by (relation "measure (\<lambda>(f, t, tol, m, i, lo, hi, a). nat (m - i))") auto

declare bisect.simps [simp del]

text \<open>
  The lookup that the loop repeats, line 82 and line 120: the target property at the known
  property and a guess for the unknown one.
\<close>

definition property_at ::
  "cli \<Rightarrow> string \<Rightarrow> string \<Rightarrow> real \<Rightarrow> string \<Rightarrow> string \<Rightarrow> real \<Rightarrow> exn + real" where
  "property_at call_coolprop_cli target_prop known_prop known_value unknown_prop fluid guess =
     call_coolprop_cli target_prop known_prop known_value unknown_prop guess fluid"

text \<open>
  \<open>solve_property\<close>, lines 46 to 131. The default arguments of the source are
  \<open>fluid = "Water"\<close>, \<open>tolerance = 1e-3\<close> and \<open>max_iterations = 50\<close>.
\<close>

definition solve_property ::
  "cli \<Rightarrow> string \<Rightarrow> real \<Rightarrow> string \<Rightarrow> real \<Rightarrow> string \<Rightarrow> real \<Rightarrow> real \<Rightarrow> string \<Rightarrow> real \<Rightarrow> int
     \<Rightarrow> line list \<times> (exn + real \<times> real \<times> int)" where
  "solve_property call_coolprop_cli target_prop target_value known_prop known_value
      unknown_prop min_guess max_guess fluid tolerance max_iterations =
     (let f = property_at call_coolprop_cli target_prop known_prop known_value
                unknown_prop fluid
      in case bisect f target_value tolerance max_iterations 0 min_guess max_guess None of
           (out, Return r) \<Rightarrow> (Header # out, Inr r)
         | (out, Raise e) \<Rightarrow> (Header # out, Inl e)
         | (out, Continue low high actual_value) \<Rightarrow>
             (let final_guess = (low + high) / 2 in
              case f final_guess of
                Inl e \<Rightarrow> (Header # out, Inl e)
              | Inr final_value \<Rightarrow>
                  (case py_div \<bar>final_value - target_value\<bar> \<bar>target_value\<bar> of
                     Inl e \<Rightarrow> (Header # out, Inl e)
                   | Inr final_error \<Rightarrow>
                       (Header # out @
                          [NotConvergedLines final_guess final_value final_error
                             max_iterations],
                        Inr (final_guess, final_value, max_iterations)))))"

definition default_tolerance :: real where
  "default_tolerance = 1 / 1000"

definition default_max_iterations :: int where
  "default_max_iterations = 50"




text \<open>
  Synthetic property services for the solver: the linear function \<open>f(x) = a x + b\<close>
  of the unknown property, any total function of it, and a service that knows the property at one state only and
  fails everywhere else, as the child process does outside the range of the fluid.
\<close>

definition linear_service :: "real \<Rightarrow> real \<Rightarrow> cli" where
  "linear_service a b = (\<lambda>prop input1_type input1_value input2_type x fluid. Inr (a * x + b))"

definition function_service :: "(real \<Rightarrow> real) \<Rightarrow> cli" where
  "function_service fr = (\<lambda>prop input1_type input1_value input2_type x fluid. Inr (fr x))"

definition single_point_service :: "real \<Rightarrow> real \<Rightarrow> cli" where
  "single_point_service x0 y0 =
     (\<lambda>prop input1_type input1_value input2_type x fluid.
        if x = x0 then Inr y0 else Inl (RuntimeError ''CoolProp CLI failed''))"

text \<open>
  A service that fails at the single state \<open>x0\<close> of the unknown property and returns
  \<open>fr x\<close> at every other state \<open>x\<close>.
\<close>

definition gap_service :: "real \<Rightarrow> (real \<Rightarrow> real) \<Rightarrow> cli" where
  "gap_service x0 fr =
     (\<lambda>prop input1_type input1_value input2_type x fluid.
        if x = x0 then Inl (RuntimeError ''CoolProp CLI failed'') else Inr (fr x))"

section \<open>The CoolProp property function\<close>

text \<open>
  The counterflow program makes the float \<open>inf\<close> itself and computes with it, so a float
  that may be infinite or not a number is a \<open>pyfloat\<close>. The operations follow IEEE 754
  on the special values and are exact on the finite ones; Python raises on a zero divisor.
\<close>

datatype pyfloat = Fin real | PInf | NInf | NaN

fun fneg :: "pyfloat \<Rightarrow> pyfloat" where
  "fneg (Fin x) = Fin (- x)"
| "fneg PInf = NInf"
| "fneg NInf = PInf"
| "fneg NaN = NaN"

fun fadd :: "pyfloat \<Rightarrow> pyfloat \<Rightarrow> pyfloat" where
  "fadd (Fin x) (Fin y) = Fin (x + y)"
| "fadd NaN y = NaN"
| "fadd x NaN = NaN"
| "fadd PInf NInf = NaN"
| "fadd NInf PInf = NaN"
| "fadd PInf y = PInf"
| "fadd NInf y = NInf"
| "fadd (Fin x) y = y"

definition fsub :: "pyfloat \<Rightarrow> pyfloat \<Rightarrow> pyfloat" where
  "fsub x y = fadd x (fneg y)"

text \<open>An infinity of the sign of \<open>s\<close>; \<open>inf * 0\<close> is not a number.\<close>

definition signed_inf :: "real \<Rightarrow> pyfloat" where
  "signed_inf s = (if 0 < s then PInf else if s < 0 then NInf else NaN)"

fun fmul :: "pyfloat \<Rightarrow> pyfloat \<Rightarrow> pyfloat" where
  "fmul (Fin x) (Fin y) = Fin (x * y)"
| "fmul NaN y = NaN"
| "fmul x NaN = NaN"
| "fmul PInf (Fin y) = signed_inf y"
| "fmul NInf (Fin y) = signed_inf (- y)"
| "fmul (Fin x) PInf = signed_inf x"
| "fmul (Fin x) NInf = signed_inf (- x)"
| "fmul PInf PInf = PInf"
| "fmul NInf NInf = PInf"
| "fmul PInf NInf = NInf"
| "fmul NInf PInf = NInf"

fun fdiv :: "pyfloat \<Rightarrow> pyfloat \<Rightarrow> exn + pyfloat" where
  "fdiv x (Fin y) =
     (if y = 0 then Inl ZeroDivisionError
      else Inr (case x of Fin a \<Rightarrow> Fin (a / y) | PInf \<Rightarrow> signed_inf y
                | NInf \<Rightarrow> signed_inf (- y) | NaN \<Rightarrow> NaN))"
| "fdiv NaN y = Inr NaN"
| "fdiv x NaN = Inr NaN"
| "fdiv (Fin x) y = Inr (Fin 0)"
| "fdiv x y = Inr NaN"

text \<open>
  \<open>PropsSI(output, name1, value1, name2, value2, fluid)\<close> of CoolProp is outside the
  repository: it returns a finite float or raises, and is a parameter of the model.
\<close>

type_synonym props =
  "string \<Rightarrow> string \<Rightarrow> pyfloat \<Rightarrow> string \<Rightarrow> pyfloat \<Rightarrow> string \<Rightarrow> exn + real"

section \<open>Binary64 arithmetic\<close>

text \<open>
  A Python float is an IEEE 754 binary64 number: a finite one is \<open>k * 2 ^ e\<close> with
  \<open>\<bar>k\<bar> < 2 ^ 53\<close> and \<open>- 1074 \<le> e \<le> 971\<close>. An operation on finite floats returns
  the exact result rounded to the nearest float, a tie to the float with the even
  mantissa, and infinity when the rounded result reaches \<open>2 ^ 1024\<close>. The two zeros of
  the format are not told apart: the programs never look at the sign of a zero.
\<close>

text \<open>The number of binary digits of a natural number, \<open>int.bit_length\<close>.\<close>

fun bit_length :: "nat \<Rightarrow> nat" where
  "bit_length n = (if n = 0 then 0 else Suc (bit_length (n div 2)))"

declare bit_length.simps [simp del]

text \<open>The binary exponent of \<open>x \<noteq> 0\<close>: the \<open>e\<close> with \<open>2 ^ e \<le> \<bar>x\<bar> < 2 ^ (e + 1)\<close>.\<close>

definition expo :: "real \<Rightarrow> int" where
  "expo x =
     (if 1 \<le> \<bar>x\<bar> then int (bit_length (nat \<lfloor>\<bar>x\<bar>\<rfloor>)) - 1
      else - int (bit_length (nat (\<lceil>1 / \<bar>x\<bar>\<rceil> - 1))))"

text \<open>The parameters of the format, under the names of \<open>sys.float_info\<close>.\<close>

definition mant_dig :: int where
  "mant_dig = 53"

definition min_exp :: int where
  "min_exp = - 1021"

definition max_exp :: int where
  "max_exp = 1024"

text \<open>
  The distance of the floats around \<open>x\<close>: \<open>2 ^ (e - 52)\<close> for the exponent \<open>e\<close> of
  \<open>x\<close>, and \<open>2 ^ - 1074\<close> in the subnormal range.
\<close>

definition ulp :: "real \<Rightarrow> real" where
  "ulp x = 2 powi (max (expo x) (min_exp - 1) - (mant_dig - 1))"

definition round_half_even :: "real \<Rightarrow> int" where
  "round_half_even q =
     (let n = \<lfloor>q\<rfloor>; r = q - of_int n
      in if r < 1 / 2 then n else if 1 / 2 < r then n + 1
         else if even n then n else n + 1)"

text \<open>Rounding with an unbounded exponent, and rounding to a float.\<close>

definition round_real :: "real \<Rightarrow> real" where
  "round_real x = of_int (round_half_even (x / ulp x)) * ulp x"

definition round64 :: "real \<Rightarrow> pyfloat" where
  "round64 x =
     (let y = round_real x
      in if 2 powi max_exp \<le> \<bar>y\<bar> then signed_inf x else Fin y)"

text \<open>The reals that are finite floats, the largest of them, and the two error units.\<close>

definition is_b64 :: "real \<Rightarrow> bool" where
  "is_b64 x = (round64 x = Fin x)"

definition float_max :: real where
  "float_max = (2 powi mant_dig - 1) * 2 powi (max_exp - mant_dig)"

definition unit_roundoff :: real where
  "unit_roundoff = 2 powi (- mant_dig)"

definition half_subnormal :: real where
  "half_subnormal = 2 powi (min_exp - 1 - mant_dig)"

text \<open>
  The operations of Python on floats: the operation on the special values, and the exact
  result rounded on the finite ones.
\<close>

definition b64 :: "pyfloat \<Rightarrow> pyfloat" where
  "b64 v = (case v of Fin x \<Rightarrow> round64 x | PInf \<Rightarrow> PInf | NInf \<Rightarrow> NInf | NaN \<Rightarrow> NaN)"

definition fadd64 :: "pyfloat \<Rightarrow> pyfloat \<Rightarrow> pyfloat" where
  "fadd64 x y = b64 (fadd x y)"

definition fsub64 :: "pyfloat \<Rightarrow> pyfloat \<Rightarrow> pyfloat" where
  "fsub64 x y = b64 (fsub x y)"

definition fmul64 :: "pyfloat \<Rightarrow> pyfloat \<Rightarrow> pyfloat" where
  "fmul64 x y = b64 (fmul x y)"

definition fdiv64 :: "pyfloat \<Rightarrow> pyfloat \<Rightarrow> exn + pyfloat" where
  "fdiv64 x y = (case fdiv x y of Inl e \<Rightarrow> Inl e | Inr v \<Rightarrow> Inr (b64 v))"

fun fabs :: "pyfloat \<Rightarrow> pyfloat" where
  "fabs (Fin x) = Fin \<bar>x\<bar>"
| "fabs PInf = PInf"
| "fabs NInf = PInf"
| "fabs NaN = NaN"

text \<open>\<open>x < y\<close> on floats: false when one of them is not a number.\<close>

fun flt :: "pyfloat \<Rightarrow> pyfloat \<Rightarrow> bool" where
  "flt (Fin x) (Fin y) = (x < y)"
| "flt NaN y = False"
| "flt x NaN = False"
| "flt x NInf = False"
| "flt PInf y = False"
| "flt NInf y = True"
| "flt (Fin x) PInf = True"

section \<open>The property solver in binary64 arithmetic\<close>

text \<open>
  The functions of \<open>property_solver.py\<close> once more, with the arithmetic of the floats:
  the midpoint \<open>(low + high) / 2.0\<close> and the relative error are rounded and may be
  infinite or not a number, and the property service takes and returns any float.
\<close>

type_synonym cli64 = "string \<Rightarrow> string \<Rightarrow> pyfloat \<Rightarrow> string \<Rightarrow> pyfloat \<Rightarrow> string \<Rightarrow> exn + pyfloat"

datatype line64 =
    Header64
  | IterLine64 int pyfloat pyfloat pyfloat
  | IterError64 int pyfloat exn
  | ConvergedLines64 pyfloat pyfloat pyfloat int
  | NotConvergedLines64 pyfloat pyfloat pyfloat int

datatype flow64 =
    Return64 "pyfloat \<times> pyfloat \<times> int"
  | Raise64 exn
  | Continue64 pyfloat pyfloat "pyfloat option"

text \<open>\<open>(low + high) / 2.0\<close>, and \<open>abs(actual_value - target_value) / abs(target_value)\<close>.\<close>

definition midpoint64 :: "pyfloat \<Rightarrow> pyfloat \<Rightarrow> exn + pyfloat" where
  "midpoint64 low high = fdiv64 (fadd64 low high) (Fin 2)"

definition relative_error64 :: "pyfloat \<Rightarrow> pyfloat \<Rightarrow> exn + pyfloat" where
  "relative_error64 actual_value target_value =
     fdiv64 (fabs (fsub64 actual_value target_value)) (fabs target_value)"

text \<open>The \<open>except Exception as e\<close> block, lines 107 to 116.\<close>

definition except_handler64 ::
  "pyfloat \<Rightarrow> int \<Rightarrow> pyfloat \<Rightarrow> pyfloat \<Rightarrow> pyfloat \<Rightarrow> pyfloat option \<Rightarrow> exn
     \<Rightarrow> line64 list \<times> flow64" where
  "except_handler64 target_value iteration guess low high actual_value e =
     ([IterError64 (iteration + 1) guess e],
      if iteration = 0 then Raise64 e
      else (case actual_value of
              None \<Rightarrow> Raise64 UnboundLocalError
            | Some a \<Rightarrow>
                if flt a target_value then Continue64 guess high actual_value
                else Continue64 low guess actual_value))"

text \<open>
  The body of the \<open>for\<close> loop, lines 77 to 116. The midpoint is computed before the
  \<open>try\<close>; the lookup and the division are inside it.
\<close>

definition loop_body64 ::
  "(pyfloat \<Rightarrow> exn + pyfloat) \<Rightarrow> pyfloat \<Rightarrow> pyfloat \<Rightarrow> int \<Rightarrow> pyfloat \<Rightarrow> pyfloat
     \<Rightarrow> pyfloat option \<Rightarrow> line64 list \<times> flow64" where
  "loop_body64 f target_value tolerance iteration low high actual_value =
     (case midpoint64 low high of
        Inl e \<Rightarrow> ([], Raise64 e)
      | Inr guess \<Rightarrow>
          (case f guess of
             Inl e \<Rightarrow> except_handler64 target_value iteration guess low high actual_value e
           | Inr a \<Rightarrow>
               (case relative_error64 a target_value of
                  Inl e \<Rightarrow>
                    except_handler64 target_value iteration guess low high (Some a) e
                | Inr error \<Rightarrow>
                    if flt error tolerance
                    then ([IterLine64 (iteration + 1) guess a error,
                           ConvergedLines64 guess a error (iteration + 1)],
                          Return64 (guess, a, iteration + 1))
                    else ([IterLine64 (iteration + 1) guess a error],
                          if flt a target_value then Continue64 guess high (Some a)
                          else Continue64 low guess (Some a)))))"

text \<open>\<open>for iteration in range(max_iterations)\<close>, started at \<open>iteration\<close>.\<close>

function bisect64 ::
  "(pyfloat \<Rightarrow> exn + pyfloat) \<Rightarrow> pyfloat \<Rightarrow> pyfloat \<Rightarrow> int \<Rightarrow> int \<Rightarrow> pyfloat \<Rightarrow> pyfloat
     \<Rightarrow> pyfloat option \<Rightarrow> line64 list \<times> flow64" where
  "bisect64 f target_value tolerance max_iterations iteration low high actual_value =
     (if iteration < max_iterations then
        (case loop_body64 f target_value tolerance iteration low high actual_value of
           (out, Continue64 low' high' actual_value') \<Rightarrow>
             (case bisect64 f target_value tolerance max_iterations (iteration + 1)
                     low' high' actual_value' of
                (out', fl) \<Rightarrow> (out @ out', fl))
         | (out, fl) \<Rightarrow> (out, fl))
      else ([], Continue64 low high actual_value))"
  by pat_completeness auto
termination
  by (relation "measure (\<lambda>(f, t, tol, m, i, lo, hi, a). nat (m - i))") auto

declare bisect64.simps [simp del]

definition property_at64 ::
  "cli64 \<Rightarrow> string \<Rightarrow> string \<Rightarrow> pyfloat \<Rightarrow> string \<Rightarrow> string \<Rightarrow> pyfloat \<Rightarrow> exn + pyfloat" where
  "property_at64 call_coolprop_cli target_prop known_prop known_value unknown_prop fluid guess =
     call_coolprop_cli target_prop known_prop known_value unknown_prop guess fluid"

text \<open>\<open>solve_property\<close>, lines 46 to 131.\<close>

definition solve_property64 ::
  "cli64 \<Rightarrow> string \<Rightarrow> pyfloat \<Rightarrow> string \<Rightarrow> pyfloat \<Rightarrow> string \<Rightarrow> pyfloat \<Rightarrow> pyfloat \<Rightarrow> string
     \<Rightarrow> pyfloat \<Rightarrow> int \<Rightarrow> line64 list \<times> (exn + pyfloat \<times> pyfloat \<times> int)" where
  "solve_property64 call_coolprop_cli target_prop target_value known_prop known_value
      unknown_prop min_guess max_guess fluid tolerance max_iterations =
     (let f = property_at64 call_coolprop_cli target_prop known_prop known_value
                unknown_prop fluid
      in case bisect64 f target_value tolerance max_iterations 0 min_guess max_guess None of
           (out, Return64 r) \<Rightarrow> (Header64 # out, Inr r)
         | (out, Raise64 e) \<Rightarrow> (Header64 # out, Inl e)
         | (out, Continue64 low high actual_value) \<Rightarrow>
             (case midpoint64 low high of
                Inl e \<Rightarrow> (Header64 # out, Inl e)
              | Inr final_guess \<Rightarrow>
                  (case f final_guess of
                     Inl e \<Rightarrow> (Header64 # out, Inl e)
                   | Inr final_value \<Rightarrow>
                       (case relative_error64 final_value target_value of
                          Inl e \<Rightarrow> (Header64 # out, Inl e)
                        | Inr final_error \<Rightarrow>
                            (Header64 # out @
                               [NotConvergedLines64 final_guess final_value final_error
                                  max_iterations],
                             Inr (final_guess, final_value, max_iterations))))))"

text \<open>The guesses that a printed line shows, and a finite float within \<open>[lo, hi]\<close>.\<close>

fun guess_of64 :: "line64 \<Rightarrow> pyfloat list" where
  "guess_of64 Header64 = []"
| "guess_of64 (IterLine64 i g a e) = [g]"
| "guess_of64 (IterError64 i g e) = [g]"
| "guess_of64 (ConvergedLines64 g a e i) = [g]"
| "guess_of64 (NotConvergedLines64 g a e i) = [g]"

definition guesses64 :: "line64 list \<Rightarrow> pyfloat list" where
  "guesses64 out = concat (map guess_of64 out)"

fun within64 :: "real \<Rightarrow> real \<Rightarrow> pyfloat \<Rightarrow> bool" where
  "within64 lo hi (Fin g) = (lo \<le> g \<and> g \<le> hi)"
| "within64 lo hi PInf = False"
| "within64 lo hi NInf = False"
| "within64 lo hi NaN = False"

text \<open>
  Synthetic property services: the Python function \<open>lambda x: a * x + b\<close> of the
  unknown property, and a service that is a given function on the finite floats and fails
  on the others.
\<close>

definition linear_service64 :: "real \<Rightarrow> real \<Rightarrow> cli64" where
  "linear_service64 a b =
     (\<lambda>prop input1_type input1_value input2_type x fluid.
        Inr (fadd64 (fmul64 (Fin a) x) (Fin b)))"

definition function_service64 :: "(real \<Rightarrow> real) \<Rightarrow> cli64" where
  "function_service64 fr =
     (\<lambda>prop input1_type input1_value input2_type x fluid.
        case x of Fin g \<Rightarrow> Inr (Fin (fr g))
        | PInf \<Rightarrow> Inl (RuntimeError ''CoolProp CLI failed'')
        | NInf \<Rightarrow> Inl (RuntimeError ''CoolProp CLI failed'')
        | NaN \<Rightarrow> Inl (RuntimeError ''CoolProp CLI failed''))"

section \<open>The unit operations (hw-3/fluid-separator.py)\<close>

subsection \<open>Throttle\<close>

record throttle =
  fluid :: string
  T_in :: real
  P_in :: real
  P_out :: real
  m_dot :: real
  h_in :: real
  s_in :: real
  h_out :: real
  s_out :: real
  x_out :: real

text \<open>\<open>Throttle.__init__\<close>, lines 16 to 30.\<close>

definition Throttle_init ::
  "props \<Rightarrow> string \<Rightarrow> real \<Rightarrow> real \<Rightarrow> real \<Rightarrow> real \<Rightarrow> exn + throttle" where
  "Throttle_init PropsSI fluid T_in P_in P_out m_dot =
     and_then (PropsSI ''H'' ''T'' (Fin T_in) ''P'' (Fin P_in) fluid) (\<lambda>h_in.
     and_then (PropsSI ''S'' ''T'' (Fin T_in) ''P'' (Fin P_in) fluid) (\<lambda>s_in.
     let h_out = h_in in
     and_then (PropsSI ''S'' ''H'' (Fin h_out) ''P'' (Fin P_out) fluid) (\<lambda>s_out.
     and_then (PropsSI ''Q'' ''H'' (Fin h_out) ''P'' (Fin P_out) fluid) (\<lambda>x_out.
     Inr \<lparr>fluid = fluid, T_in = T_in, P_in = P_in, P_out = P_out, m_dot = m_dot,
          h_in = h_in, s_in = s_in, h_out = h_out, s_out = s_out, x_out = x_out\<rparr>))))"
  for fluid T_in P_in P_out m_dot

subsection \<open>FlashSeparator\<close>

text \<open>The attribute \<open>s_in\<close> is \<open>None\<close> until it is supplied or derived.\<close>

record flash_separator =
  fluid :: string
  P :: real
  x_in :: real
  m_dot :: real
  s_in :: "real option"
  m_dot_vap :: real
  m_dot_liq :: real
  h_vap :: real
  s_vap :: real
  T_vap :: real
  h_liq :: real
  s_liq :: real
  T_liq :: real

text \<open>
  \<open>FlashSeparator.__init__\<close>, lines 46 to 67. The two mass flows are products of
  floats. The attributes of the record are finite floats, so the model has no object
  (\<open>None\<close>) for a call in which one of the products is infinite; the source stores the
  infinity.
\<close>

definition FlashSeparator_init ::
  "props \<Rightarrow> string \<Rightarrow> real \<Rightarrow> real \<Rightarrow> real \<Rightarrow> real option
     \<Rightarrow> (exn + flash_separator) option" where
  "FlashSeparator_init PropsSI fluid P x_in m_dot s_in =
     (case (fmul64 (Fin x_in) (Fin m_dot),
            fmul64 (fsub64 (Fin 1) (Fin x_in)) (Fin m_dot)) of
        (Fin vap, Fin liq) \<Rightarrow>
          Some (
            and_then (PropsSI ''H'' ''P'' (Fin P) ''Q'' (Fin 1) fluid) (\<lambda>h_vap.
            and_then (PropsSI ''S'' ''P'' (Fin P) ''Q'' (Fin 1) fluid) (\<lambda>s_vap.
            and_then (PropsSI ''T'' ''P'' (Fin P) ''Q'' (Fin 1) fluid) (\<lambda>T_vap.
            and_then (PropsSI ''H'' ''P'' (Fin P) ''Q'' (Fin 0) fluid) (\<lambda>h_liq.
            and_then (PropsSI ''S'' ''P'' (Fin P) ''Q'' (Fin 0) fluid) (\<lambda>s_liq.
            and_then (PropsSI ''T'' ''P'' (Fin P) ''Q'' (Fin 0) fluid) (\<lambda>T_liq.
            Inr \<lparr>fluid = fluid, P = P, x_in = x_in, m_dot = m_dot, s_in = s_in,
                 m_dot_vap = vap, m_dot_liq = liq,
                 h_vap = h_vap, s_vap = s_vap, T_vap = T_vap,
                 h_liq = h_liq, s_liq = s_liq, T_liq = T_liq\<rparr>)))))))
      | _ \<Rightarrow> None)"
  for fluid P x_in m_dot s_in

text \<open>
  \<open>FlashSeparator.exergy_destruction\<close>, lines 69 to 76. The method may assign
  \<open>self.s_in\<close>, so the model returns the object as the call leaves it beside the value
  returned or the exception raised.
\<close>

definition entropy_generation :: "flash_separator \<Rightarrow> real \<Rightarrow> real" where
  "entropy_generation self s =
     (m_dot_vap self * s_vap self + m_dot_liq self * s_liq self) - m_dot self * s"

definition FlashSeparator_exergy_destruction ::
  "props \<Rightarrow> flash_separator \<Rightarrow> real \<Rightarrow> (exn + real) \<times> flash_separator" where
  "FlashSeparator_exergy_destruction PropsSI self T0 =
     (case s_in self of
        None \<Rightarrow>
          (case PropsSI ''H'' ''P'' (Fin (P self)) ''Q'' (Fin (x_in self)) (fluid self) of
             Inl e \<Rightarrow> (Inl e, self)
           | Inr h_mix \<Rightarrow>
               (case PropsSI ''S'' ''H'' (Fin h_mix) ''P'' (Fin (P self)) (fluid self) of
                  Inl e \<Rightarrow> (Inl e, self)
                | Inr s \<Rightarrow> (Inr (T0 * entropy_generation self s), self\<lparr>s_in := Some s\<rparr>)))
      | Some s \<Rightarrow> (Inr (T0 * entropy_generation self s), self))"

text \<open>
  \<open>FlashSeparator.__repr__\<close>, lines 78 to 83, formats these numbers (the pressure in
  MPa, then mass flow, enthalpy and temperature of the vapor and of the liquid) and assigns
  nothing.
\<close>

definition FlashSeparator_repr ::
  "flash_separator \<Rightarrow> real \<times> real \<times> real \<times> real \<times> real \<times> real \<times> real" where
  "FlashSeparator_repr self =
     (P self / 1000000, m_dot_vap self, h_vap self, T_vap self,
      m_dot_liq self, h_liq self, T_liq self)"

subsection \<open>Mixer\<close>

record mixer =
  fluid :: string
  P :: real
  h_1 :: real
  s_1 :: real
  m_dot_1 :: real
  h_2 :: real
  s_2 :: real
  m_dot_2 :: real
  m_dot_out :: real
  h_out :: real
  T_out :: real
  s_out :: real

text \<open>\<open>Mixer.__init__\<close>, lines 132 to 147.\<close>

definition Mixer_init ::
  "props \<Rightarrow> string \<Rightarrow> real \<Rightarrow> real \<Rightarrow> real \<Rightarrow> real \<Rightarrow> real \<Rightarrow> real \<Rightarrow> real \<Rightarrow> exn + mixer" where
  "Mixer_init PropsSI fluid h_1 s_1 m_dot_1 h_2 s_2 m_dot_2 P =
     (let m_dot_out = m_dot_1 + m_dot_2 in
      and_then (py_div (m_dot_1 * h_1 + m_dot_2 * h_2) m_dot_out) (\<lambda>h_out.
      and_then (PropsSI ''T'' ''H'' (Fin h_out) ''P'' (Fin P) fluid) (\<lambda>T_out.
      and_then (PropsSI ''S'' ''H'' (Fin h_out) ''P'' (Fin P) fluid) (\<lambda>s_out.
      Inr \<lparr>fluid = fluid, P = P, h_1 = h_1, s_1 = s_1, m_dot_1 = m_dot_1,
           h_2 = h_2, s_2 = s_2, m_dot_2 = m_dot_2, m_dot_out = m_dot_out,
           h_out = h_out, T_out = T_out, s_out = s_out\<rparr>))))"
  for fluid h_1 s_1 m_dot_1 h_2 s_2 m_dot_2 P

text \<open>\<open>Mixer.exergy_destruction\<close>, lines 126 to 130.\<close>

definition Mixer_exergy_destruction :: "mixer \<Rightarrow> real \<Rightarrow> real" where
  "Mixer_exergy_destruction self T0 =
     T0 * (m_dot_out self * s_out self - m_dot_1 self * s_1 self - m_dot_2 self * s_2 self)"

section \<open>The counterflow heat exchanger (hw-3/counterflow-hx.py)\<close>

text \<open>\<open>safe_T_from_h\<close>, lines 28 to 33: a lookup that fails gives \<open>None\<close>.\<close>

definition safe_T_from_h :: "props \<Rightarrow> pyfloat \<Rightarrow> real \<Rightarrow> string \<Rightarrow> real option" where
  "safe_T_from_h PropsSI h p fl =
     (case PropsSI ''T'' ''H'' h ''P'' (Fin p) fl of Inl e \<Rightarrow> None | Inr T \<Rightarrow> Some T)"

text \<open>
  \<open>compute_boundary_temperatures\<close>, lines 36 to 75, returns the tuple
  \<open>(T_b_H, T_b_C, Q_dot, h_h_in, h_h_out, s_h_in, s_h_out, h_c_in, h_c_out, s_c_in, s_c_out)\<close>.
  Its two divisions have no guard.
\<close>

type_synonym boundary =
  "real \<times> real \<times> real \<times> real \<times> real \<times> real \<times> real \<times> real \<times> real \<times> real \<times> real"

definition compute_boundary_temperatures ::
  "props \<Rightarrow> real \<Rightarrow> real \<Rightarrow> real \<Rightarrow> real \<Rightarrow> real \<Rightarrow> real \<Rightarrow> real \<Rightarrow> real \<Rightarrow> string \<Rightarrow> string
     \<Rightarrow> exn + boundary" where
  "compute_boundary_temperatures PropsSI T_h_in T_h_out P_h T_c_in T_c_out P_c
      m_dot_h m_dot_c fluid_h fluid_c =
     and_then (PropsSI ''H'' ''T'' (Fin T_h_in) ''P'' (Fin P_h) fluid_h) (\<lambda>h_h_in.
     and_then (PropsSI ''H'' ''T'' (Fin T_h_out) ''P'' (Fin P_h) fluid_h) (\<lambda>h_h_out.
     and_then (PropsSI ''S'' ''T'' (Fin T_h_in) ''P'' (Fin P_h) fluid_h) (\<lambda>s_h_in.
     and_then (PropsSI ''S'' ''T'' (Fin T_h_out) ''P'' (Fin P_h) fluid_h) (\<lambda>s_h_out.
     and_then (PropsSI ''H'' ''T'' (Fin T_c_in) ''P'' (Fin P_c) fluid_c) (\<lambda>h_c_in.
     and_then (PropsSI ''H'' ''T'' (Fin T_c_out) ''P'' (Fin P_c) fluid_c) (\<lambda>h_c_out.
     and_then (PropsSI ''S'' ''T'' (Fin T_c_in) ''P'' (Fin P_c) fluid_c) (\<lambda>s_c_in.
     and_then (PropsSI ''S'' ''T'' (Fin T_c_out) ''P'' (Fin P_c) fluid_c) (\<lambda>s_c_out.
     and_then (py_div (h_h_in - h_h_out) (s_h_in - s_h_out)) (\<lambda>T_b_H.
     and_then (py_div (h_c_out - h_c_in) (s_c_out - s_c_in)) (\<lambda>T_b_C.
     let Q_dot = m_dot_h * (h_h_in - h_h_out) in
     Inr (T_b_H, T_b_C, Q_dot, h_h_in, h_h_out, s_h_in, s_h_out,
          h_c_in, h_c_out, s_c_in, s_c_out)))))))))))"

text \<open>\<open>compute_exergy_destruction\<close>, lines 78 to 97, returns \<open>(X_dest, X_check)\<close>.\<close>

definition compute_exergy_destruction ::
  "real \<Rightarrow> real \<Rightarrow> real \<Rightarrow> real \<Rightarrow> real \<Rightarrow> real \<Rightarrow> real \<Rightarrow> real \<Rightarrow> real \<Rightarrow> real
     \<Rightarrow> exn + real \<times> real" where
  "compute_exergy_destruction T_b_H T_b_C Q_dot T_0 m_dot_h m_dot_c
      s_h_in s_h_out s_c_in s_c_out =
     and_then (py_div 1 T_b_C) (\<lambda>inv_C.
     and_then (py_div 1 T_b_H) (\<lambda>inv_H.
     let X_dest = T_0 * Q_dot * (inv_C - inv_H);
         S_gen = m_dot_h * (s_h_out - s_h_in) + m_dot_c * (s_c_out - s_c_in);
         X_check = T_0 * S_gen
     in Inr (X_dest, X_check)))"

text \<open>
  \<open>compute_exergetic_efficiency\<close>, lines 100 to 114: the division is guarded and a zero
  divisor gives \<open>nan\<close>.
\<close>

definition compute_exergetic_efficiency ::
  "real \<Rightarrow> real \<Rightarrow> real \<Rightarrow> real \<Rightarrow> real \<Rightarrow> real \<Rightarrow> real \<Rightarrow> real \<Rightarrow> real \<Rightarrow> real \<Rightarrow> real
     \<Rightarrow> pyfloat" where
  "compute_exergetic_efficiency m_dot_h m_dot_c T_0 h_h_in h_h_out s_h_in s_h_out
      h_c_in h_c_out s_c_in s_c_out =
     (let dX_c = m_dot_c * ((h_c_out - h_c_in) - T_0 * (s_c_out - s_c_in));
          dX_h = m_dot_h * ((h_h_in - h_h_out) - T_0 * (s_h_in - s_h_out))
      in if dX_h \<noteq> 0 then Fin (dX_c / dX_h) else NaN)"

text \<open>The given conditions of \<open>main\<close>, lines 130 to 139.\<close>

definition P_h :: real where "P_h = 12000000"
definition T_h_in :: real where "T_h_in = 720"
definition P_c :: real where "P_c = 10000000"
definition T_c_in :: real where "T_c_in = 310"
definition dTmin :: real where "dTmin = 12"
definition fluid_h :: string where "fluid_h = ''CO2''"
definition fluid_c :: string where "fluid_c = ''Water''"

text \<open>
  \<open>evaluate_case\<close>, lines 159 to 175, a closure over \<open>mu\<close>, \<open>h_h_in\<close> and \<open>h_c_in\<close>
  of \<open>main\<close>. It returns \<open>(T_h_out, h_h_out, h_c_out, T_c_out, dT_other)\<close>, where
  \<open>T_h_out\<close>, \<open>h_h_out\<close>, \<open>T_c_out\<close> and \<open>dT_other\<close> may be \<open>None\<close>.
\<close>

type_synonym case_result =
  "real option \<times> pyfloat option \<times> pyfloat \<times> real option \<times> real option"

definition evaluate_case ::
  "props \<Rightarrow> pyfloat \<Rightarrow> real \<Rightarrow> real \<Rightarrow> bool \<Rightarrow> exn + case_result" where
  "evaluate_case PropsSI mu h_h_in h_c_in pinch_hot =
     (if pinch_hot then
        (let T_h_out = T_c_in + dTmin in
         and_then (PropsSI ''H'' ''T'' (Fin T_h_out) ''P'' (Fin P_h) fluid_h) (\<lambda>h_h_out.
         let h_c_out = fadd (Fin h_c_in) (fmul mu (Fin (h_h_in - h_h_out)));
             T_c_out = safe_T_from_h PropsSI h_c_out P_c fluid_c;
             dT_other = T_h_in - (case T_c_out of Some T \<Rightarrow> T | None \<Rightarrow> T_c_in)
         in Inr (Some T_h_out, Some (Fin h_h_out), h_c_out, T_c_out, Some dT_other)))
      else
        (let T_c_out = T_h_in - dTmin in
         and_then (PropsSI ''H'' ''T'' (Fin T_c_out) ''P'' (Fin P_c) fluid_c) (\<lambda>h_c_out.
         and_then
           (if mu \<noteq> Fin 0
            then and_then (fdiv (Fin (h_c_out - h_c_in)) mu)
                   (\<lambda>q. Inr (Some (fsub (Fin h_h_in) q)))
            else Inr None) (\<lambda>h_h_out.
         let T_h_out = (case h_h_out of
                          Some h \<Rightarrow> safe_T_from_h PropsSI h P_h fluid_h
                        | None \<Rightarrow> None);
             dT_other = (case T_h_out of None \<Rightarrow> None | Some T \<Rightarrow> Some (T - T_c_in))
         in Inr (T_h_out, h_h_out, Fin h_c_out, Some T_c_out, dT_other)))))"

datatype feasibility = FEASIBLE | INFEASIBLE

text \<open>
  The word printed after the approach temperature, lines 185 to 190 and 201 to 206:
  nothing is printed for a case whose outlet temperature is \<open>None\<close>. Formatting or
  comparing \<open>None\<close> would raise.
\<close>

definition printed_label :: "real option \<Rightarrow> real option \<Rightarrow> exn + feasibility option" where
  "printed_label T_outlet dT_other =
     (case T_outlet of
        None \<Rightarrow> Inr None
      | Some T \<Rightarrow>
          (case dT_other of
             None \<Rightarrow> Inl TypeError
           | Some d \<Rightarrow> Inr (Some (if d \<ge> dTmin then FEASIBLE else INFEASIBLE))))"

text \<open>The tests of lines 218 and 231: \<open>T is not None and dT_other >= dTmin\<close>.\<close>

definition carried_forward :: "real option \<Rightarrow> real option \<Rightarrow> exn + bool" where
  "carried_forward T_outlet dT_other =
     (case T_outlet of
        None \<Rightarrow> Inr False
      | Some T \<Rightarrow> (case dT_other of None \<Rightarrow> Inl TypeError | Some d \<Rightarrow> Inr (d \<ge> dTmin)))"

text \<open>An argument that must be a float: \<open>None\<close> in its place raises.\<close>

definition the_float :: "real option \<Rightarrow> exn + real" where
  "the_float x = (case x of None \<Rightarrow> Inl TypeError | Some v \<Rightarrow> Inr v)"

text \<open>
  What a run of \<open>main\<close> that ends normally has computed and printed: the mass-flow ratio,
  the two evaluated cases, the word printed for each, the case taken into the analysis
  (\<open>True\<close> for the pinch at the hot outlet), and the results of the boundary-temperature,
  exergy-destruction and efficiency computations when they ran.
\<close>

record report =
  rep_mu :: pyfloat
  rep_case1 :: case_result
  rep_case2 :: case_result
  rep_label1 :: "feasibility option"
  rep_label2 :: "feasibility option"
  rep_analysed :: "bool option"
  rep_boundary :: "boundary option"
  rep_exergy :: "(real \<times> real) option"
  rep_efficiency :: "pyfloat option"

text \<open>
  Lines 220 to 227 and 232 to 239, then lines 243 to 252 (\<open>TbH\<close> is not \<open>None\<close> once
  the boundary temperatures have been computed).
\<close>

definition analyse ::
  "props \<Rightarrow> real \<Rightarrow> real \<Rightarrow> real option \<Rightarrow> real option
     \<Rightarrow> exn + boundary \<times> (real \<times> real) \<times> pyfloat" where
  "analyse PropsSI m_dot_h m_dot_c T_h_out T_c_out =
     and_then (the_float T_h_out) (\<lambda>Th.
     and_then (the_float T_c_out) (\<lambda>Tc.
     and_then (compute_boundary_temperatures PropsSI T_h_in Th P_h T_c_in Tc P_c
                 m_dot_h m_dot_c ''CO2'' ''Water'')
       (\<lambda>(TbH, TbC, Qdot, h_h_in, h_h_out, s_h_in, s_h_out, h_c_in, h_c_out, s_c_in, s_c_out).
     and_then (compute_exergy_destruction TbH TbC Qdot 300 m_dot_h m_dot_c
                 s_h_in s_h_out s_c_in s_c_out) (\<lambda>X.
     Inr ((TbH, TbC, Qdot, h_h_in, h_h_out, s_h_in, s_h_out, h_c_in, h_c_out, s_c_in, s_c_out),
          X,
          compute_exergetic_efficiency m_dot_h m_dot_c 300
            h_h_in h_h_out s_h_in s_h_out h_c_in h_c_out s_c_in s_c_out)))))"

text \<open>
  The choice of a feasible case and its analysis, lines 213 to 252, on the report of the
  lines before: the first case is taken when it passes the test, the second only when the
  first does not, and the analysis runs for the case taken.
\<close>

definition choose_and_analyse :: "props \<Rightarrow> real \<Rightarrow> real \<Rightarrow> report \<Rightarrow> exn + report" where
  "choose_and_analyse PropsSI m_dot_h m_dot_c rep =
     (case rep_case1 rep of
        (T_h_out_case1, h_h_out_case1, h_c_out_case1, T_c_out_case1, dT_other1) \<Rightarrow>
     case rep_case2 rep of
        (T_h_out_case2, h_h_out_case2, h_c_out_case2, T_c_out_case2, dT_other2) \<Rightarrow>
     and_then (carried_forward T_c_out_case1 dT_other1) (\<lambda>first.
     if first then
       and_then (analyse PropsSI m_dot_h m_dot_c T_h_out_case1 T_c_out_case1) (\<lambda>(b, X, eta).
       Inr (rep\<lparr>rep_analysed := Some True, rep_boundary := Some b, rep_exergy := Some X,
                 rep_efficiency := Some eta\<rparr>))
     else
       and_then (carried_forward T_h_out_case2 dT_other2) (\<lambda>second.
       if second then
         and_then (analyse PropsSI m_dot_h m_dot_c T_h_out_case2 T_c_out_case2) (\<lambda>(b, X, eta).
         Inr (rep\<lparr>rep_analysed := Some False, rep_boundary := Some b, rep_exergy := Some X,
                   rep_efficiency := Some eta\<rparr>))
       else Inr rep)))"

text \<open>
  \<open>main\<close>, lines 117 to 252, for the mass flows that the command line gave. The lines
  that print an implied ratio divide behind a test of the divisor and are left out.
\<close>

definition main :: "props \<Rightarrow> real \<Rightarrow> real \<Rightarrow> exn + report" where
  "main PropsSI m_dot_h m_dot_c =
     (let mu = (if m_dot_c \<noteq> 0 then Fin (m_dot_h / m_dot_c) else PInf) in
      and_then (PropsSI ''H'' ''T'' (Fin T_h_in) ''P'' (Fin P_h) fluid_h) (\<lambda>h_h_in.
      and_then (PropsSI ''H'' ''T'' (Fin T_c_in) ''P'' (Fin P_c) fluid_c) (\<lambda>h_c_in.
      and_then (evaluate_case PropsSI mu h_h_in h_c_in True)
        (\<lambda>(T_h_out_case1, h_h_out_case1, h_c_out_case1, T_c_out_case1, dT_other1).
      and_then (evaluate_case PropsSI mu h_h_in h_c_in False)
        (\<lambda>(T_h_out_case2, h_h_out_case2, h_c_out_case2, T_c_out_case2, dT_other2).
      and_then (printed_label T_c_out_case1 dT_other1) (\<lambda>label1.
      and_then (printed_label T_h_out_case2 dT_other2) (\<lambda>label2.
      choose_and_analyse PropsSI m_dot_h m_dot_c
        \<lparr>rep_mu = mu,
         rep_case1 = (T_h_out_case1, h_h_out_case1, h_c_out_case1, T_c_out_case1, dT_other1),
         rep_case2 = (T_h_out_case2, h_h_out_case2, h_c_out_case2, T_c_out_case2, dT_other2),
         rep_label1 = label1, rep_label2 = label2,
         rep_analysed = None, rep_boundary = None, rep_exergy = None,
         rep_efficiency = None\<rparr>)))))))"

text \<open>A property function that always fails, as for an unknown fluid.\<close>

definition failing_props :: props where
  "failing_props output name1 value1 name2 value2 fluid = Inl (ValueError ''unknown fluid'')"
  for fluid

text \<open>
  A synthetic property function for the unit operations and the heat exchanger: enthalpy
  and entropy proportional to the first input, temperature the inverse of enthalpy,
  a quality between 0 and 1; an input that is not finite raises.
\<close>

definition ideal_props :: props where
  "ideal_props output name1 value1 name2 value2 fluid =
     (case value1 of
        Fin x \<Rightarrow>
          if output = ''H'' \<and> name1 = ''T'' then Inr (1000 * x)
          else if output = ''T'' \<and> name1 = ''H'' then Inr (x / 1000)
          else if output = ''Q'' then Inr (1 / 2)
          else Inr (2 * x)
      | _ \<Rightarrow> Inl (ValueError ''value is not finite''))"
  for fluid

text \<open>The same property function without the inversion of enthalpy to temperature.\<close>

definition no_inverse_props :: props where
  "no_inverse_props output name1 value1 name2 value2 fluid =
     (if output = ''T'' \<and> name1 = ''H'' then Inl (ValueError ''no solution'')
      else ideal_props output name1 value1 name2 value2 fluid)"
  for fluid

section \<open>Properties of the binary64 arithmetic\<close>

lemma bit_length_pos: "0 < n \<Longrightarrow> 0 < bit_length n"
  by (subst bit_length.simps) simp

lemma bit_length_bounds:
  "0 < n \<Longrightarrow> 2 ^ (bit_length n - 1) \<le> n \<and> n < 2 ^ bit_length n"
proof (induction n rule: bit_length.induct)
  case (1 n)
  have bl: "bit_length n = Suc (bit_length (n div 2))"
    using "1.prems" by (subst bit_length.simps) simp
  show ?case
  proof (cases "n div 2 = 0")
    case True
    with "1.prems" have "n = 1" by presburger
    then show ?thesis by (simp add: bit_length.simps)
  next
    case False
    then have ih: "2 ^ (bit_length (n div 2) - 1) \<le> n div 2"
      "n div 2 < 2 ^ bit_length (n div 2)"
      using 1 by simp_all
    from False have "0 < bit_length (n div 2)" by (simp add: bit_length_pos)
    then have p: "(2::nat) ^ bit_length (n div 2) = 2 * 2 ^ (bit_length (n div 2) - 1)"
      by (cases "bit_length (n div 2)") simp_all
    have "(2::nat) ^ (bit_length n - 1) \<le> 2 * (n div 2)"
      using ih(1) p by (simp add: bl)
    moreover have "n < 2 * (n div 2 + 1)" by presburger
    moreover have "2 * (n div 2 + 1) \<le> 2 ^ bit_length n"
      using ih(2) by (simp add: bl)
    ultimately show ?thesis by linarith
  qed
qed

lemma expo_bounds:
  assumes "x \<noteq> 0"
  shows "2 powi expo x \<le> \<bar>x\<bar>" and "\<bar>x\<bar> < 2 powi (expo x + 1)"
proof -
  have "2 powi expo x \<le> \<bar>x\<bar> \<and> \<bar>x\<bar> < 2 powi (expo x + 1)"
  proof (cases "1 \<le> \<bar>x\<bar>")
    case True
    define n where "n = nat \<lfloor>\<bar>x\<bar>\<rfloor>"
    have n: "0 < n" "real n \<le> \<bar>x\<bar>" "\<bar>x\<bar> < real n + 1"
      using True unfolding n_def by (simp_all add: le_floor_iff)
    from bit_length_bounds [OF n(1)]
    have b: "2 ^ (bit_length n - 1) \<le> n" "n + 1 \<le> 2 ^ bit_length n" by simp_all
    have e: "expo x = int (bit_length n) - 1"
      using True by (simp add: expo_def n_def)
    have pos: "0 < bit_length n" using n(1) by (rule bit_length_pos)
    have e1: "(2::real) powi expo x = 2 ^ (bit_length n - 1)"
      using pos by (simp add: e power_int_def nat_diff_distrib')
    have e2: "(2::real) powi (expo x + 1) = 2 ^ bit_length n"
      by (simp add: e power_int_def)
    have "(2::real) ^ (bit_length n - 1) \<le> real n"
      using b(1) by (metis of_nat_le_iff of_nat_numeral of_nat_power)
    moreover have "real n + 1 \<le> 2 ^ bit_length n"
      using b(2) by (metis of_nat_le_iff of_nat_numeral of_nat_power of_nat_Suc Suc_eq_plus1 add.commute)
    ultimately show ?thesis using n e1 e2 by linarith
  next
    case False
    define y where "y = 1 / \<bar>x\<bar>"
    define n where "n = nat (\<lceil>y\<rceil> - 1)"
    have y: "1 < y" using False assms by (simp add: y_def)
    then have c: "2 \<le> \<lceil>y\<rceil>" by linarith
    have rn: "real n = of_int \<lceil>y\<rceil> - 1"
      using c by (simp add: n_def)
    have n: "0 < n" "real n < y" "y \<le> real n + 1"
      using c ceiling_correct [of y] by (simp_all add: rn) (simp add: n_def)
    from bit_length_bounds [OF n(1)]
    have b: "2 ^ (bit_length n - 1) \<le> n" "n + 1 \<le> 2 ^ bit_length n" by simp_all
    have e: "expo x = - int (bit_length n)"
      using False by (simp add: expo_def n_def y_def)
    have pos: "0 < bit_length n" using n(1) by (rule bit_length_pos)
    have e1: "(2::real) powi expo x = 1 / 2 ^ bit_length n"
      by (simp add: e power_int_def field_simps)
    have "- int (bit_length n) + 1 \<le> 0" using pos by simp
    then have e2: "(2::real) powi (expo x + 1) = 1 / 2 ^ (bit_length n - 1)"
      using pos by (simp add: e power_int_def nat_diff_distrib' field_simps)
    have r1: "(2::real) ^ (bit_length n - 1) \<le> real n"
      using b(1) by (metis of_nat_le_iff of_nat_numeral of_nat_power)
    have r2: "real n + 1 \<le> 2 ^ bit_length n"
      using b(2) by (metis of_nat_le_iff of_nat_numeral of_nat_power of_nat_Suc Suc_eq_plus1 add.commute)
    have x: "\<bar>x\<bar> = 1 / y" using assms by (simp add: y_def)
    have "1 / 2 ^ bit_length n \<le> 1 / y"
      using r2 n(3) y by (intro divide_left_mono) simp_all
    moreover have "1 / y < 1 / 2 ^ (bit_length n - 1)"
    proof -
      have "(2::real) ^ (bit_length n - 1) < y" using r1 n(2) by linarith
      moreover have "(0::real) < 2 ^ (bit_length n - 1)" by simp
      ultimately show ?thesis using y by (simp add: field_simps)
    qed
    ultimately show ?thesis using e1 e2 x by simp
  qed
  then show "2 powi expo x \<le> \<bar>x\<bar>" and "\<bar>x\<bar> < 2 powi (expo x + 1)" by simp_all
qed

lemma rhe_int: "round_half_even (of_int n) = n"
  by (simp add: round_half_even_def)

lemma rhe_range: "\<lfloor>q\<rfloor> \<le> round_half_even q" "round_half_even q \<le> \<lfloor>q\<rfloor> + 1"
  by (simp_all add: round_half_even_def Let_def)

lemma rhe_err: "\<bar>of_int (round_half_even q) - q\<bar> \<le> 1 / 2"
proof -
  have "of_int \<lfloor>q\<rfloor> \<le> q" "q < of_int \<lfloor>q\<rfloor> + 1" by linarith+
  then show ?thesis
    by (auto simp: round_half_even_def Let_def abs_le_iff)
qed

lemma rhe_mono:
  assumes "q \<le> q'"
  shows "round_half_even q \<le> round_half_even q'"
proof (cases "\<lfloor>q\<rfloor> = \<lfloor>q'\<rfloor>")
  case True
  then show ?thesis
    using assms by (auto simp: round_half_even_def Let_def)
next
  case False
  with floor_mono [OF assms] have "\<lfloor>q\<rfloor> + 1 \<le> \<lfloor>q'\<rfloor>" by simp
  with rhe_range(2) [of q] rhe_range(1) [of q'] show ?thesis by linarith
qed

lemma rhe_minus: "round_half_even (- q) = - round_half_even q"
proof (cases "q = of_int \<lfloor>q\<rfloor>")
  case True
  then obtain n where n: "q = of_int n" ..
  then have "- q = of_int (- n)" by simp
  then have "round_half_even (- q) = - n" by (simp only: rhe_int)
  then show ?thesis by (simp add: n rhe_int)
next
  case False
  define n where "n = \<lfloor>q\<rfloor>"
  define r where "r = q - of_int n"
  have r: "0 < r" "r < 1"
    using False unfolding r_def n_def by linarith+
  have f: "\<lfloor>- q\<rfloor> = - n - 1"
    using r by (intro floor_unique) (simp_all add: r_def)
  have r': "- q - of_int (- n - 1) = 1 - r" by (simp add: r_def)
  have par: "even (- n - 1) \<longleftrightarrow> odd n" by simp
  have a: "round_half_even q =
      (if r < 1 / 2 then n else if 1 / 2 < r then n + 1 else if even n then n else n + 1)"
    by (simp add: round_half_even_def Let_def n_def r_def)
  have b: "round_half_even (- q) =
      (if 1 - r < 1 / 2 then - n - 1 else if 1 / 2 < 1 - r then - n
       else if odd n then - n - 1 else - n)"
    unfolding round_half_even_def Let_def f r' par by simp
  show ?thesis
    unfolding a b using r by (simp add: not_less)
qed

lemma pow2_less_imp: "(2::real) powi a < 2 powi b \<Longrightarrow> a < b"
  by (rule ccontr) (use power_int_increasing [of b a "2::real"] in simp)

lemma pow2_pos: "(0::real) < 2 powi a"
  by simp

lemma pow2_add: "(2::real) powi (a + b) = 2 powi a * 2 powi b"
  by (simp add: power_int_add)

lemma pow2_add1: "(2::real) powi (a + 1) = 2 powi a * 2"
  by (simp add: power_int_add)

lemma pow2_diff: "(2::real) powi (a - b) = 2 powi a / 2 powi b"
  by (simp add: power_int_diff)

lemma pow2_mono: "a \<le> b \<Longrightarrow> (2::real) powi a \<le> 2 powi b"
  by (simp add: power_int_increasing)

lemma expo_unique:
  assumes "2 powi e \<le> \<bar>x\<bar>" and "\<bar>x\<bar> < 2 powi (e + 1)"
  shows "expo x = e"
proof -
  have "0 < \<bar>x\<bar>" using assms(1) pow2_pos [of e] by linarith
  then have "x \<noteq> 0" by simp
  note b = expo_bounds [OF this]
  have "(2::real) powi expo x < 2 powi (e + 1)" using b(1) assms(2) by linarith
  then have "expo x < e + 1" by (rule pow2_less_imp)
  moreover have "(2::real) powi e < 2 powi (expo x + 1)" using b(2) assms(1) by linarith
  then have "e < expo x + 1" by (rule pow2_less_imp)
  ultimately show ?thesis by simp
qed

lemma expo_minus: "expo (- x) = expo x"
  by (simp add: expo_def)

lemma expo_abs: "expo \<bar>x\<bar> = expo x"
  by (simp add: expo_def)

lemma expo_mono:
  assumes "x \<noteq> 0" and "\<bar>x\<bar> \<le> \<bar>y\<bar>"
  shows "expo x \<le> expo y"
proof -
  have y: "y \<noteq> 0" using assms by auto
  have "(2::real) powi expo x < 2 powi (expo y + 1)"
    using expo_bounds(1) [OF assms(1)] expo_bounds(2) [OF y] assms(2) by linarith
  then have "expo x < expo y + 1" by (rule pow2_less_imp)
  then show ?thesis by simp
qed

lemma ulp_pos: "0 < ulp x"
  by (simp add: ulp_def)

lemma ulp_minus: "ulp (- x) = ulp x"
  by (simp add: ulp_def expo_minus)

lemma round_real_0: "round_real 0 = 0"
  using rhe_int [of 0] by (simp add: round_real_def)

lemma round_real_minus: "round_real (- x) = - round_real x"
  by (simp add: round_real_def ulp_minus rhe_minus)

lemma round_real_err: "\<bar>round_real x - x\<bar> \<le> ulp x / 2"
proof -
  have "round_real x - x = (of_int (round_half_even (x / ulp x)) - x / ulp x) * ulp x"
    using ulp_pos [of x] by (simp add: round_real_def field_simps)
  then have "\<bar>round_real x - x\<bar> = \<bar>of_int (round_half_even (x / ulp x)) - x / ulp x\<bar> * ulp x"
    using ulp_pos [of x] by (simp add: abs_mult)
  also have "\<dots> \<le> 1 / 2 * ulp x"
    using rhe_err [of "x / ulp x"] ulp_pos [of x] by (intro mult_right_mono) simp_all
  finally show ?thesis by simp
qed

lemma ulp_half_le:
  assumes "x \<noteq> 0"
  shows "ulp x / 2 \<le> \<bar>x\<bar> * unit_roundoff + half_subnormal"
proof (cases "min_exp - 1 \<le> expo x")
  case True
  then have "max (expo x) (min_exp - 1) = expo x" by simp
  then have "ulp x = 2 powi (expo x - (mant_dig - 1))" by (simp only: ulp_def)
  also have "expo x - (mant_dig - 1) = expo x + (- mant_dig) + 1" by simp
  also have "(2::real) powi (expo x + (- mant_dig) + 1) = 2 powi expo x * 2 powi (- mant_dig) * 2"
    using pow2_add [of "expo x + (- mant_dig)" 1] pow2_add [of "expo x" "- mant_dig"] by simp
  finally have "ulp x / 2 = 2 powi expo x * unit_roundoff" by (simp add: unit_roundoff_def)
  also have "\<dots> \<le> \<bar>x\<bar> * unit_roundoff"
    using expo_bounds(1) [OF assms] by (intro mult_right_mono) (simp_all add: unit_roundoff_def)
  finally have "ulp x / 2 \<le> \<bar>x\<bar> * unit_roundoff" .
  moreover have "0 < half_subnormal" by (simp add: half_subnormal_def)
  ultimately show ?thesis by linarith
next
  case False
  then have "max (expo x) (min_exp - 1) = min_exp - 1" by simp
  then have "ulp x = 2 powi (min_exp - 1 - (mant_dig - 1))" by (simp only: ulp_def)
  also have "min_exp - 1 - (mant_dig - 1) = (min_exp - 1 - mant_dig) + 1" by simp
  also have "(2::real) powi ((min_exp - 1 - mant_dig) + 1) = 2 powi (min_exp - 1 - mant_dig) * 2"
    using pow2_add [of "min_exp - 1 - mant_dig" 1] by simp
  finally have "ulp x / 2 = half_subnormal" by (simp add: half_subnormal_def)
  moreover have "0 \<le> \<bar>x\<bar> * unit_roundoff" by (simp add: unit_roundoff_def)
  ultimately show ?thesis by linarith
qed

lemma round_real_err2: "\<bar>round_real x - x\<bar> \<le> \<bar>x\<bar> * unit_roundoff + half_subnormal"
proof (cases "x = 0")
  case True
  then show ?thesis by (simp add: round_real_0 half_subnormal_def)
next
  case False
  then show ?thesis
    using round_real_err [of x] ulp_half_le [of x] by linarith
qed

lemma pow2_mant_dig: "(2::real) powi mant_dig = of_int (2 ^ 53)"
  by (simp add: mant_dig_def)

lemma pow2_mant_dig1: "(2::real) powi (mant_dig - 1) = of_int (2 ^ 52)"
  by (simp add: mant_dig_def)

lemma ulp_exp:
  "ulp x = 2 powi (max (expo x) (min_exp - 1) - (mant_dig - 1))"
  by (simp only: ulp_def)

lemma ulp_times_mant: "ulp x * 2 powi mant_dig = 2 powi (max (expo x) (min_exp - 1) + 1)"
proof -
  have "max (expo x) (min_exp - 1) + 1 = (max (expo x) (min_exp - 1) - (mant_dig - 1)) + mant_dig"
    by simp
  then show ?thesis
    unfolding ulp_exp by (simp only: pow2_add)
qed

lemma x_over_ulp: "\<bar>x\<bar> < ulp x * 2 powi mant_dig"
proof (cases "x = 0")
  case True
  then show ?thesis using ulp_pos [of x] by simp
next
  case False
  have "\<bar>x\<bar> < 2 powi (expo x + 1)" by (rule expo_bounds(2) [OF False])
  also have "\<dots> \<le> 2 powi (max (expo x) (min_exp - 1) + 1)" by (rule pow2_mono) simp
  finally show ?thesis by (simp only: ulp_times_mant)
qed

lemma rhe_le: "q \<le> of_int B \<Longrightarrow> round_half_even q \<le> B"
  using rhe_mono [of q "of_int B"] by (simp add: rhe_int)

lemma rhe_ge: "of_int B \<le> q \<Longrightarrow> B \<le> round_half_even q"
  using rhe_mono [of "of_int B" q] by (simp add: rhe_int)

lemma round_real_multiple:
  assumes "x = of_int M * ulp x"
  shows "round_real x = x"
proof -
  have "x / ulp x = of_int M"
    using assms ulp_pos [of x] by (simp add: field_simps)
  then have "round_real x = of_int M * ulp x"
    by (simp add: round_real_def rhe_int)
  with assms show ?thesis by simp
qed

lemma round_real_form:
  "\<exists>N. round_real x = of_int N * ulp x \<and> \<bar>N\<bar> \<le> 2 ^ 53"
proof -
  let ?q = "x / ulp x"
  have "\<bar>?q\<bar> < 2 powi mant_dig"
    using x_over_ulp [of x] ulp_pos [of x] by (simp add: field_simps)
  then have q: "?q \<le> of_int (2 ^ 53)" "of_int (- (2 ^ 53)) \<le> ?q"
    unfolding pow2_mant_dig by linarith+
  have "round_half_even ?q \<le> 2 ^ 53" "- (2 ^ 53) \<le> round_half_even ?q"
    using rhe_le [OF q(1)] rhe_ge [OF q(2)] by simp_all
  then have "\<bar>round_half_even ?q\<bar> \<le> 2 ^ 53" by linarith
  then show ?thesis unfolding round_real_def by blast
qed

lemma round_real_fixed_lt:
  assumes N: "\<bar>N\<bar> < 2 ^ 53" and e: "min_exp - mant_dig \<le> e"
  shows "round_real (of_int N * 2 powi e) = of_int N * 2 powi e"
proof (cases "N = 0")
  case True
  then show ?thesis by (simp add: round_real_0)
next
  case False
  define y :: real where "y = of_int N * 2 powi e"
  define E where "E = max (expo y) (min_exp - 1) - (mant_dig - 1)"
  have y0: "y \<noteq> 0" using False by (simp add: y_def)
  have ay: "\<bar>y\<bar> = \<bar>of_int N\<bar> * 2 powi e" by (simp add: y_def abs_mult)
  have "\<bar>real_of_int N\<bar> < of_int (2 ^ 53)" using N by linarith
  then have "\<bar>real_of_int N\<bar> < 2 powi mant_dig" by (simp only: pow2_mant_dig)
  then have "\<bar>y\<bar> < 2 powi mant_dig * 2 powi e"
    unfolding ay by (intro mult_strict_right_mono) simp_all
  then have "\<bar>y\<bar> < 2 powi (mant_dig + e)" by (simp only: pow2_add)
  then have "(2::real) powi expo y < 2 powi (mant_dig + e)"
    using expo_bounds(1) [OF y0] by linarith
  then have "expo y < mant_dig + e" by (rule pow2_less_imp)
  then have Ee: "E \<le> e" using e by (simp add: E_def)
  have u: "ulp y = 2 powi E" by (simp only: ulp_exp E_def)
  have "(2::real) powi e = 2 powi ((e - E) + E)" by simp
  also have "\<dots> = 2 powi (e - E) * 2 powi E" by (simp only: pow2_add)
  also have "(2::real) powi (e - E) = of_int (2 ^ nat (e - E))"
    using Ee by (simp add: power_int_def)
  finally have pe: "(2::real) powi e = of_int (2 ^ nat (e - E)) * 2 powi E" .
  have yy: "y = of_int (N * 2 ^ nat (e - E)) * 2 powi E"
    unfolding y_def pe by simp
  have "y = of_int (N * 2 ^ nat (e - E)) * ulp y"
    unfolding u by (rule yy)
  then have "round_real y = y" by (rule round_real_multiple)
  then show ?thesis by (simp add: y_def)
qed

lemma round_real_fixed:
  assumes N: "\<bar>N\<bar> \<le> 2 ^ 53" and e: "min_exp - mant_dig \<le> e"
  shows "round_real (of_int N * 2 powi e) = of_int N * 2 powi e"
proof (cases "\<bar>N\<bar> < 2 ^ 53")
  case True
  then show ?thesis using e by (rule round_real_fixed_lt)
next
  case False
  with N have "N = 2 ^ 53 \<or> N = - (2 ^ 53)" by linarith
  then obtain N' where N': "N = 2 * N'" "\<bar>N'\<bar> < 2 ^ 53" by auto
  have "real_of_int N * 2 powi e = of_int N' * 2 powi (e + 1)"
    by (simp add: N'(1) pow2_add1)
  moreover have "round_real (of_int N' * 2 powi (e + 1)) = of_int N' * 2 powi (e + 1)"
    using N'(2) e by (intro round_real_fixed_lt) simp_all
  ultimately show ?thesis by simp
qed

lemma ulp_exp_ge: "min_exp - mant_dig \<le> max (expo x) (min_exp - 1) - (mant_dig - 1)"
  by simp

lemma round_real_idem: "round_real (round_real x) = round_real x"
proof -
  obtain N where N: "round_real x = of_int N * ulp x" "\<bar>N\<bar> \<le> 2 ^ 53"
    using round_real_form by blast
  show ?thesis
    unfolding N(1) ulp_exp using N(2) ulp_exp_ge by (rule round_real_fixed)
qed

lemma round_real_nonneg: "0 \<le> x \<Longrightarrow> 0 \<le> round_real x"
proof -
  assume "0 \<le> x"
  then have "of_int 0 \<le> x / ulp x" using ulp_pos [of x] by simp
  then have "0 \<le> round_half_even (x / ulp x)" by (rule rhe_ge)
  then show ?thesis using ulp_pos [of x] by (simp add: round_real_def)
qed

lemma round_real_mono_pos:
  assumes "0 < x" and "x \<le> y"
  shows "round_real x \<le> round_real y"
proof -
  define Ex where "Ex = max (expo x) (min_exp - 1)"
  define Ey where "Ey = max (expo y) (min_exp - 1)"
  have ux: "ulp x = 2 powi (Ex - (mant_dig - 1))" by (simp only: ulp_exp Ex_def)
  have uy: "ulp y = 2 powi (Ey - (mant_dig - 1))" by (simp only: ulp_exp Ey_def)
  have x0: "x \<noteq> 0" and y0: "y \<noteq> 0" and ypos: "0 < y" using assms by auto
  have "expo x \<le> expo y" using assms by (intro expo_mono) auto
  then have le: "Ex \<le> Ey" by (simp add: Ex_def Ey_def)
  show ?thesis
  proof (cases "Ex = Ey")
    case True
    then have u: "ulp x = ulp y" by (simp add: ux uy)
    have "x / ulp y \<le> y / ulp y"
      using assms(2) ulp_pos [of y] by (simp add: divide_right_mono)
    then have "round_half_even (x / ulp y) \<le> round_half_even (y / ulp y)" by (rule rhe_mono)
    then show ?thesis
      using ulp_pos [of y] by (simp add: round_real_def u mult_right_mono)
  next
    case False
    with le have lt: "Ex + 1 \<le> Ey" by simp
    then have Ey: "Ey = expo y" by (simp add: Ex_def Ey_def max_def split: if_splits)
    have "x / ulp x \<le> 2 powi mant_dig"
      using x_over_ulp [of x] ulp_pos [of x] assms(1) by (simp add: field_simps)
    then have "round_half_even (x / ulp x) \<le> 2 ^ 53"
      unfolding pow2_mant_dig by (rule rhe_le)
    then have "real_of_int (round_half_even (x / ulp x)) \<le> of_int (2 ^ 53)"
      by (simp only: of_int_le_iff)
    then have "round_real x \<le> of_int (2 ^ 53) * ulp x"
      unfolding round_real_def using ulp_pos [of x] by (intro mult_right_mono) simp_all
    also have "\<dots> = 2 powi mant_dig * 2 powi (Ex - (mant_dig - 1))"
      by (simp only: pow2_mant_dig ux)
    also have "\<dots> = 2 powi (Ex + 1)"
      using pow2_add [of mant_dig "Ex - (mant_dig - 1)"] by simp
    also have "\<dots> \<le> 2 powi Ey" using lt by (rule pow2_mono)
    finally have a: "round_real x \<le> 2 powi Ey" .
    have "2 powi Ey \<le> y"
      using expo_bounds(1) [OF y0] ypos by (simp add: Ey)
    moreover have "(2::real) powi Ey = 2 powi (mant_dig - 1) * ulp y"
      using pow2_add [of "mant_dig - 1" "Ey - (mant_dig - 1)"] by (simp add: uy)
    ultimately have "of_int (2 ^ 52) \<le> y / ulp y"
      using ulp_pos [of y] by (simp add: pow2_mant_dig1 field_simps)
    then have "2 ^ 52 \<le> round_half_even (y / ulp y)" by (rule rhe_ge)
    then have "real_of_int (2 ^ 52) \<le> of_int (round_half_even (y / ulp y))"
      by (simp only: of_int_le_iff)
    then have "of_int (2 ^ 52) * ulp y \<le> round_real y"
      unfolding round_real_def using ulp_pos [of y] by (intro mult_right_mono) simp_all
    moreover have "of_int (2 ^ 52) * ulp y = 2 powi Ey"
      unfolding pow2_mant_dig1 [symmetric] uy
      using pow2_add [of "mant_dig - 1" "Ey - (mant_dig - 1)"] by simp
    ultimately have "2 powi Ey \<le> round_real y" by simp
    with a show ?thesis by linarith
  qed
qed

lemma round_real_mono:
  assumes "x \<le> y"
  shows "round_real x \<le> round_real y"
proof -
  consider "0 < x" | "y < 0" | "x \<le> 0" "0 \<le> y" by linarith
  then show ?thesis
  proof cases
    case 1
    then show ?thesis using assms by (rule round_real_mono_pos)
  next
    case 2
    then have "0 < - y" "- y \<le> - x" using assms by simp_all
    then have "round_real (- y) \<le> round_real (- x)" by (rule round_real_mono_pos)
    then show ?thesis by (simp add: round_real_minus)
  next
    case 3
    then have "0 \<le> round_real y" "0 \<le> round_real (- x)"
      by (simp_all add: round_real_nonneg)
    then show ?thesis by (simp add: round_real_minus)
  qed
qed

lemma signed_inf_not_Fin: "signed_inf x \<noteq> Fin y"
  by (simp add: signed_inf_def)

lemma round64_Fin:
  "\<bar>round_real x\<bar> < 2 powi max_exp \<Longrightarrow> round64 x = Fin (round_real x)"
  by (simp add: round64_def Let_def)

lemma round64_FinD:
  assumes "round64 x = Fin y"
  shows "y = round_real x" and "\<bar>y\<bar> < 2 powi max_exp"
  using assms by (auto simp: round64_def Let_def signed_inf_not_Fin split: if_splits)

lemma is_b64_iff: "is_b64 x \<longleftrightarrow> round_real x = x \<and> \<bar>x\<bar> < 2 powi max_exp"
  by (auto simp: is_b64_def round64_def Let_def signed_inf_not_Fin)

lemma round64_is_b64: "round64 x = Fin y \<Longrightarrow> is_b64 y"
  using round64_FinD [of x y] by (simp add: is_b64_iff round_real_idem)

lemma is_b64_minus: "is_b64 (- x) = is_b64 x"
  by (auto simp: is_b64_iff round_real_minus)

lemma round64_mono:
  "round64 x = Fin a \<Longrightarrow> round64 y = Fin b \<Longrightarrow> x \<le> y \<Longrightarrow> a \<le> b"
  using round64_FinD(1) round_real_mono by blast

lemma round_real_bounded:
  assumes B: "is_b64 B" and x: "\<bar>x\<bar> \<le> B"
  shows "\<bar>round_real x\<bar> \<le> B"
proof -
  from B have rb: "round_real B = B" by (simp add: is_b64_iff)
  have "round_real (- B) \<le> round_real x" "round_real x \<le> round_real B"
    using x by (intro round_real_mono; linarith)+
  then show ?thesis by (simp add: rb round_real_minus abs_le_iff)
qed

lemma round64_bounded:
  assumes B: "is_b64 B" and x: "\<bar>x\<bar> \<le> B"
  shows "round64 x = Fin (round_real x)" and "\<bar>round_real x\<bar> \<le> B"
proof -
  show b: "\<bar>round_real x\<bar> \<le> B" using assms by (rule round_real_bounded)
  from B have "\<bar>B\<bar> < 2 powi max_exp" by (simp add: is_b64_iff)
  with b have "\<bar>round_real x\<bar> < 2 powi max_exp" by linarith
  then show "round64 x = Fin (round_real x)" by (rule round64_Fin)
qed

lemma is_b64_form:
  assumes "\<bar>N\<bar> \<le> 2 ^ 53" and "min_exp - mant_dig \<le> e"
    and "\<bar>real_of_int N * 2 powi e\<bar> < 2 powi max_exp"
  shows "is_b64 (of_int N * 2 powi e)"
  using assms by (simp add: is_b64_iff round_real_fixed)

lemma is_b64_double:
  assumes "is_b64 x" and "\<bar>2 * x\<bar> < 2 powi max_exp"
  shows "is_b64 (2 * x)"
proof -
  obtain N where N: "round_real x = of_int N * ulp x" "\<bar>N\<bar> \<le> 2 ^ 53"
    using round_real_form by blast
  from assms(1) have x: "x = of_int N * ulp x" using N(1) by (simp add: is_b64_iff)
  let ?E = "max (expo x) (min_exp - 1) - (mant_dig - 1)"
  have "2 * x = of_int N * (2 powi ?E * 2)" using x by (simp add: ulp_exp)
  also have "2 powi ?E * 2 = (2::real) powi (?E + 1)" by (simp only: pow2_add1)
  finally have t: "2 * x = of_int N * 2 powi (?E + 1)" .
  have "is_b64 (of_int N * 2 powi (?E + 1))"
    using N(2) assms(2) unfolding t by (intro is_b64_form) simp_all
  then show ?thesis by (simp only: t)
qed

lemma is_b64_0: "is_b64 0"
  by (simp add: is_b64_iff round_real_0)

lemma is_b64_pow2:
  assumes "min_exp - mant_dig \<le> e" and "e < max_exp"
  shows "is_b64 (2 powi e)"
proof -
  have "is_b64 (of_int 1 * 2 powi e)"
    using assms by (intro is_b64_form) (simp_all add: power_int_strict_increasing)
  then show ?thesis by simp
qed

lemma is_b64_1: "is_b64 1"
  using is_b64_pow2 [of 0] by (simp add: min_exp_def mant_dig_def max_exp_def)

lemma is_b64_float_max: "is_b64 float_max"
proof -
  have a: "(2::real) powi mant_dig - 1 = of_int (2 ^ 53 - 1)"
    by (simp add: pow2_mant_dig)
  have b: "0 \<le> (2::real) powi mant_dig - 1" unfolding a by simp
  have "\<bar>float_max\<bar> = float_max"
    unfolding float_max_def using b by (simp add: abs_mult)
  moreover have "float_max < 2 powi mant_dig * 2 powi (max_exp - mant_dig)"
    unfolding float_max_def by (intro mult_strict_right_mono) simp_all
  moreover have "(2::real) powi mant_dig * 2 powi (max_exp - mant_dig) = 2 powi max_exp"
    using pow2_add [of mant_dig "max_exp - mant_dig"] by simp
  ultimately have lt: "\<bar>float_max\<bar> < 2 powi max_exp" by simp
  have "is_b64 (of_int (2 ^ 53 - 1) * 2 powi (max_exp - mant_dig))"
    using lt unfolding float_max_def a
    by (intro is_b64_form) (simp_all add: min_exp_def max_exp_def)
  then show ?thesis by (simp only: float_max_def a)
qed

lemma float_max_pos: "0 < float_max"
  unfolding float_max_def by (simp add: pow2_mant_dig)

lemmas b64_eval = round64_def round_real_def ulp_def expo_def round_half_even_def b64_def
  fadd64_def fsub64_def fmul64_def fdiv64_def fsub_def Let_def bit_length.simps power_int_def
  signed_inf_def power_one_over mant_dig_def min_exp_def max_exp_def

section \<open>Properties of the solver\<close>

lemma bisect_done:
  "\<not> iteration < max_iterations \<Longrightarrow>
   bisect f t tol max_iterations iteration low high av = ([], Continue low high av)"
  by (simp add: bisect.simps)

lemma bisect_step:
  "iteration < max_iterations \<Longrightarrow>
   bisect f t tol max_iterations iteration low high av =
     (case loop_body f t tol iteration low high av of
        (out, Continue low' high' av') \<Rightarrow>
          (case bisect f t tol max_iterations (iteration + 1) low' high' av' of
             (out', fl) \<Rightarrow> (out @ out', fl))
      | (out, fl) \<Rightarrow> (out, fl))"
  by (subst bisect.simps) simp

lemma bisect_start_failure:
  "f ((low + high) / 2) = Inl e \<Longrightarrow> 0 < m \<Longrightarrow>
   bisect f t tol m 0 low high av = ([IterError 1 ((low + high) / 2) e], Raise e)"
  by (simp add: bisect_step loop_body_def except_handler_def)

lemma bisect_zero_target:
  "0 < m \<Longrightarrow>
   bisect f 0 tol m 0 low high av =
     ([IterError 1 ((low + high) / 2)
         (case f ((low + high) / 2) of Inl e \<Rightarrow> e | Inr v \<Rightarrow> ZeroDivisionError)],
      Raise (case f ((low + high) / 2) of Inl e \<Rightarrow> e | Inr v \<Rightarrow> ZeroDivisionError))"
  by (simp add: bisect_step loop_body_def except_handler_def py_div_def split: sum.splits)











lemma bisect_split:
  "nat (k - i) = n \<Longrightarrow> i \<le> k \<Longrightarrow> k \<le> m \<Longrightarrow>
   bisect f t tol k i lo hi av = (out, Continue l h av') \<Longrightarrow>
   bisect f t tol m i lo hi av =
     (case bisect f t tol m k l h av' of (out', fl) \<Rightarrow> (out @ out', fl))"
proof (induction n arbitrary: i lo hi av out)
  case 0
  then have ik: "i = k" by simp
  with 0 have "out = []" "l = lo" "h = hi" "av' = av" by (simp_all add: bisect_done)
  then show ?case using ik by (simp split: prod.splits)
next
  case (Suc n)
  then have ik: "i < k" and im: "i < m" and n: "nat (k - (i + 1)) = n" and le: "i + 1 \<le> k"
    by auto
  obtain out1 fl1 where lb: "loop_body f t tol i lo hi av = (out1, fl1)"
    by (cases "loop_body f t tol i lo hi av")
  show ?case
  proof (cases fl1)
    case (Continue lo' hi' av1)
    obtain out2 fl2 where r: "bisect f t tol k (i + 1) lo' hi' av1 = (out2, fl2)"
      by (cases "bisect f t tol k (i + 1) lo' hi' av1")
    have eq: "out = out1 @ out2" "fl2 = Continue l h av'"
      using Suc.prems(4) ik lb Continue r by (simp_all add: bisect_step)
    note ih = Suc.IH [OF n le Suc.prems(3) r [unfolded eq(2)]]
    show ?thesis
      using im lb Continue ih eq by (simp add: bisect_step split: prod.splits)
  next
    case (Return r)
    then show ?thesis
      using Suc.prems(4) ik lb by (simp add: bisect_step)
  next
    case (Raise e)
    then show ?thesis
      using Suc.prems(4) ik lb by (simp add: bisect_step)
  qed
qed

lemma loop_body_binds:
  "loop_body f t tol i lo hi av = (out, Continue l h av') \<Longrightarrow> i = 0 \<or> av \<noteq> None \<Longrightarrow>
   av' \<noteq> None"
  by (auto simp: loop_body_def except_handler_def py_div_def Let_def
        split: sum.splits if_splits option.splits)

lemma bisect_binds:
  "nat (k - i) = n \<Longrightarrow> i < k \<Longrightarrow> i = 0 \<or> av \<noteq> None \<Longrightarrow>
   bisect f t tol k i lo hi av = (out, Continue l h av') \<Longrightarrow> av' \<noteq> None"
proof (induction n arbitrary: i lo hi av out)
  case 0
  then show ?case by simp
next
  case (Suc n)
  obtain out1 fl1 where lb: "loop_body f t tol i lo hi av = (out1, fl1)"
    by (cases "loop_body f t tol i lo hi av")
  show ?case
  proof (cases fl1)
    case (Continue lo' hi' av1)
    obtain out2 fl2 where r: "bisect f t tol k (i + 1) lo' hi' av1 = (out2, fl2)"
      by (cases "bisect f t tol k (i + 1) lo' hi' av1")
    have fl2: "fl2 = Continue l h av'"
      using Suc.prems(4) Suc.prems(2) lb Continue r by (simp add: bisect_step)
    have av1: "av1 \<noteq> None"
      using loop_body_binds [OF lb [unfolded Continue] Suc.prems(3)] .
    show ?thesis
    proof (cases "i + 1 < k")
      case True
      have n: "nat (k - (i + 1)) = n" using Suc.prems(1) by simp
      from Suc.IH [OF n True _ r [unfolded fl2]] av1 show ?thesis by simp
    next
      case False
      then have "av' = av1" using r fl2 by (simp add: bisect_done)
      with av1 show ?thesis by simp
    qed
  next
    case (Return r)
    then show ?thesis
      using Suc.prems(4) Suc.prems(2) lb by (simp add: bisect_step)
  next
    case (Raise e)
    then show ?thesis
      using Suc.prems(4) Suc.prems(2) lb by (simp add: bisect_step)
  qed
qed

lemmas solver_eval = solve_property_def bisect.simps loop_body_def except_handler_def
  py_div_def property_at_def linear_service_def function_service_def
  single_point_service_def gap_service_def Let_def



lemma solve_property_zero_target:
  fixes fluid :: string
  shows "snd (solve_property call_coolprop_cli target_prop 0 known_prop known_value
                unknown_prop min_guess max_guess fluid tolerance max_iterations) =
         Inl (case call_coolprop_cli target_prop known_prop known_value unknown_prop
                     ((min_guess + max_guess) / 2) fluid of
                Inl e \<Rightarrow> e | Inr v \<Rightarrow> ZeroDivisionError)"
proof (cases "0 < max_iterations")
  case True
  then show ?thesis
    by (simp add: solve_property_def bisect_zero_target property_at_def split: sum.splits)
next
  case False
  then show ?thesis
    by (simp add: solve_property_def bisect_done property_at_def py_div_def Let_def
          split: sum.splits)
qed

section \<open>Properties of the counterflow program\<close>

lemmas cf_eval = main_def choose_and_analyse_def evaluate_case_def and_then_def safe_T_from_h_def ideal_props_def
  no_inverse_props_def printed_label_def carried_forward_def analyse_def the_float_def
  compute_boundary_temperatures_def compute_exergy_destruction_def
  compute_exergetic_efficiency_def py_div_def fsub_def signed_inf_def
  P_h_def T_h_in_def P_c_def T_c_in_def dTmin_def fluid_h_def fluid_c_def Let_def

lemma main_mu:
  assumes "main PropsSI m_dot_h m_dot_c = Inr rep"
  shows "rep_mu rep = (if m_dot_c \<noteq> 0 then Fin (m_dot_h / m_dot_c) else PInf)"
  using assms
  by (auto simp: main_def choose_and_analyse_def and_then_def Let_def
        split: sum.splits prod.splits if_splits)

lemma evaluate_case_hot:
  assumes "evaluate_case PropsSI mu h_h_in h_c_in True = Inr (Th, hh, hc, Tc, dT)"
  shows "Th = Some (T_c_in + dTmin) \<and>
         dT = Some (T_h_in - (case Tc of Some T \<Rightarrow> T | None \<Rightarrow> T_c_in))"
  using assms
  by (auto simp: evaluate_case_def and_then_def Let_def split: sum.splits)

lemma evaluate_case_cold:
  assumes "evaluate_case PropsSI mu h_h_in h_c_in False = Inr (Th, hh, hc, Tc, dT)"
  shows "Tc = Some (T_h_in - dTmin) \<and>
         dT = (case Th of None \<Rightarrow> None | Some T \<Rightarrow> Some (T - T_c_in))"
  using assms
  by (auto simp: evaluate_case_def and_then_def Let_def split: sum.splits)

lemma printed_label_Inr:
  assumes "printed_label T d = Inr l"
  shows "l = (case T of None \<Rightarrow> None
              | Some x \<Rightarrow> Some (if the d \<ge> dTmin then FEASIBLE else INFEASIBLE))"
  using assms by (auto simp: printed_label_def split: option.splits)

lemma carried_forward_Inr:
  assumes "carried_forward T d = Inr c"
  shows "c = (T \<noteq> None \<and> the d \<ge> dTmin)"
  using assms by (auto simp: carried_forward_def split: option.splits)

lemma and_then_InrE:
  assumes "and_then m k = Inr y"
  obtains x where "m = Inr x" and "k x = Inr y"
  using assms by (cases m) (simp_all add: and_then_def)

lemma choose_and_analyse_Inr:
  assumes "choose_and_analyse PropsSI m_dot_h m_dot_c rep0 = Inr rep"
    and "rep_case1 rep0 = (Th1, hh1, hc1, Tc1, dT1)"
    and "rep_case2 rep0 = (Th2, hh2, hc2, Tc2, dT2)"
  obtains c1 where "carried_forward Tc1 dT1 = Inr c1"
    and "c1 \<Longrightarrow> \<exists>b X eta. analyse PropsSI m_dot_h m_dot_c Th1 Tc1 = Inr (b, X, eta) \<and>
           rep = rep0\<lparr>rep_analysed := Some True, rep_boundary := Some b,
                      rep_exergy := Some X, rep_efficiency := Some eta\<rparr>"
    and "\<not> c1 \<Longrightarrow> \<exists>c2. carried_forward Th2 dT2 = Inr c2 \<and>
           (if c2 then
              \<exists>b X eta. analyse PropsSI m_dot_h m_dot_c Th2 Tc2 = Inr (b, X, eta) \<and>
                rep = rep0\<lparr>rep_analysed := Some False, rep_boundary := Some b,
                           rep_exergy := Some X, rep_efficiency := Some eta\<rparr>
            else rep = rep0)"
proof -
  have "and_then (carried_forward Tc1 dT1) (\<lambda>first.
     if first then
       and_then (analyse PropsSI m_dot_h m_dot_c Th1 Tc1) (\<lambda>(b, X, eta).
       Inr (rep0\<lparr>rep_analysed := Some True, rep_boundary := Some b, rep_exergy := Some X,
                 rep_efficiency := Some eta\<rparr>))
     else
       and_then (carried_forward Th2 dT2) (\<lambda>second.
       if second then
         and_then (analyse PropsSI m_dot_h m_dot_c Th2 Tc2) (\<lambda>(b, X, eta).
         Inr (rep0\<lparr>rep_analysed := Some False, rep_boundary := Some b, rep_exergy := Some X,
                   rep_efficiency := Some eta\<rparr>))
       else Inr rep0)) = Inr rep"
    using assms unfolding choose_and_analyse_def by simp
  then obtain c1 where c1: "carried_forward Tc1 dT1 = Inr c1"
    and r: "(if c1 then
       and_then (analyse PropsSI m_dot_h m_dot_c Th1 Tc1) (\<lambda>(b, X, eta).
       Inr (rep0\<lparr>rep_analysed := Some True, rep_boundary := Some b, rep_exergy := Some X,
                 rep_efficiency := Some eta\<rparr>))
     else
       and_then (carried_forward Th2 dT2) (\<lambda>second.
       if second then
         and_then (analyse PropsSI m_dot_h m_dot_c Th2 Tc2) (\<lambda>(b, X, eta).
         Inr (rep0\<lparr>rep_analysed := Some False, rep_boundary := Some b, rep_exergy := Some X,
                   rep_efficiency := Some eta\<rparr>))
       else Inr rep0)) = Inr rep"
    by (rule and_then_InrE)
  have a: "\<exists>b X eta. analyse PropsSI m_dot_h m_dot_c Th1 Tc1 = Inr (b, X, eta) \<and>
           rep = rep0\<lparr>rep_analysed := Some True, rep_boundary := Some b,
                      rep_exergy := Some X, rep_efficiency := Some eta\<rparr>" if c1
  proof -
    from r that have "and_then (analyse PropsSI m_dot_h m_dot_c Th1 Tc1) (\<lambda>(b, X, eta).
       Inr (rep0\<lparr>rep_analysed := Some True, rep_boundary := Some b, rep_exergy := Some X,
                 rep_efficiency := Some eta\<rparr>)) = Inr rep"
      by simp
    then obtain x where "analyse PropsSI m_dot_h m_dot_c Th1 Tc1 = Inr x"
      and "(case x of (b, X, eta) \<Rightarrow>
             Inr (rep0\<lparr>rep_analysed := Some True, rep_boundary := Some b, rep_exergy := Some X,
                 rep_efficiency := Some eta\<rparr>)) = (Inr rep :: exn + report)"
      by (rule and_then_InrE)
    then show ?thesis by (cases x) auto
  qed
  have b: "\<exists>c2. carried_forward Th2 dT2 = Inr c2 \<and>
           (if c2 then
              \<exists>b X eta. analyse PropsSI m_dot_h m_dot_c Th2 Tc2 = Inr (b, X, eta) \<and>
                rep = rep0\<lparr>rep_analysed := Some False, rep_boundary := Some b,
                           rep_exergy := Some X, rep_efficiency := Some eta\<rparr>
            else rep = rep0)" if "\<not> c1"
  proof -
    from r that have "and_then (carried_forward Th2 dT2) (\<lambda>second.
       if second then
         and_then (analyse PropsSI m_dot_h m_dot_c Th2 Tc2) (\<lambda>(b, X, eta).
         Inr (rep0\<lparr>rep_analysed := Some False, rep_boundary := Some b, rep_exergy := Some X,
                   rep_efficiency := Some eta\<rparr>))
       else Inr rep0) = Inr rep"
      by simp
    then obtain c2 where c2: "carried_forward Th2 dT2 = Inr c2"
      and r2: "(if c2 then
         and_then (analyse PropsSI m_dot_h m_dot_c Th2 Tc2) (\<lambda>(b, X, eta).
         Inr (rep0\<lparr>rep_analysed := Some False, rep_boundary := Some b, rep_exergy := Some X,
                   rep_efficiency := Some eta\<rparr>))
       else Inr rep0) = Inr rep"
      by (rule and_then_InrE)
    show ?thesis
    proof (cases c2)
      case True
      with r2 have "and_then (analyse PropsSI m_dot_h m_dot_c Th2 Tc2) (\<lambda>(b, X, eta).
         Inr (rep0\<lparr>rep_analysed := Some False, rep_boundary := Some b, rep_exergy := Some X,
                   rep_efficiency := Some eta\<rparr>)) = Inr rep"
        by simp
      then obtain x where "analyse PropsSI m_dot_h m_dot_c Th2 Tc2 = Inr x"
        and "(case x of (b, X, eta) \<Rightarrow>
             Inr (rep0\<lparr>rep_analysed := Some False, rep_boundary := Some b, rep_exergy := Some X,
                 rep_efficiency := Some eta\<rparr>)) = (Inr rep :: exn + report)"
        by (rule and_then_InrE)
      then have "\<exists>b X eta. analyse PropsSI m_dot_h m_dot_c Th2 Tc2 = Inr (b, X, eta) \<and>
                rep = rep0\<lparr>rep_analysed := Some False, rep_boundary := Some b,
                           rep_exergy := Some X, rep_efficiency := Some eta\<rparr>"
        by (cases x) auto
      with c2 True show ?thesis by auto
    next
      case False
      with r2 have "rep = rep0" by simp
      with c2 False show ?thesis by auto
    qed
  qed
  from c1 a b show thesis by (rule that)
qed

lemma main_front:
  assumes "main PropsSI m_dot_h m_dot_c = Inr rep"
  obtains h_h_in h_c_in Th1 hh1 hc1 Tc1 dT1 Th2 hh2 hc2 Tc2 dT2 l1 l2 where
    "evaluate_case PropsSI (if m_dot_c \<noteq> 0 then Fin (m_dot_h / m_dot_c) else PInf)
       h_h_in h_c_in True = Inr (Th1, hh1, hc1, Tc1, dT1)"
    and "evaluate_case PropsSI (if m_dot_c \<noteq> 0 then Fin (m_dot_h / m_dot_c) else PInf)
       h_h_in h_c_in False = Inr (Th2, hh2, hc2, Tc2, dT2)"
    and "printed_label Tc1 dT1 = Inr l1" and "printed_label Th2 dT2 = Inr l2"
    and "choose_and_analyse PropsSI m_dot_h m_dot_c
           \<lparr>rep_mu = (if m_dot_c \<noteq> 0 then Fin (m_dot_h / m_dot_c) else PInf),
            rep_case1 = (Th1, hh1, hc1, Tc1, dT1),
            rep_case2 = (Th2, hh2, hc2, Tc2, dT2),
            rep_label1 = l1, rep_label2 = l2, rep_analysed = None,
            rep_boundary = None, rep_exergy = None, rep_efficiency = None\<rparr> = Inr rep"
  apply (insert assms)
  apply (unfold main_def Let_def)
  apply (erule and_then_InrE)+
  apply (simp only: split_paired_all prod.case)
  apply (erule and_then_InrE)+
  apply (simp only: split_paired_all prod.case)
  apply (erule and_then_InrE)+
  apply blast
  done

section \<open>Properties of the unit operations\<close>

lemmas unit_eval = Throttle_init_def FlashSeparator_init_def Mixer_init_def and_then_def
  FlashSeparator_exergy_destruction_def entropy_generation_def py_div_def ideal_props_def
  Let_def

lemma half_subnormal_le: "half_subnormal \<le> unit_roundoff"
  unfolding half_subnormal_def unit_roundoff_def
  by (rule pow2_mono) (simp add: min_exp_def)

lemma unit_roundoff_pos: "0 < unit_roundoff"
  by (simp add: unit_roundoff_def)

lemma half_subnormal_pos: "0 < half_subnormal"
  by (simp add: half_subnormal_def)

lemma fmul64_Fin: "fmul64 (Fin x) (Fin y) = round64 (x * y)"
  by (simp add: fmul64_def b64_def)

lemma fsub64_Fin: "fsub64 (Fin x) (Fin y) = round64 (x - y)"
  by (simp add: fsub64_def fsub_def b64_def)

lemma fadd64_Fin: "fadd64 (Fin x) (Fin y) = round64 (x + y)"
  by (simp add: fadd64_def b64_def)

lemma round64_unit_interval:
  assumes "0 \<le> x" and "x \<le> 1"
  shows "round64 x = Fin (round_real x)" and "0 \<le> round_real x" and "round_real x \<le> 1"
proof -
  have "\<bar>x\<bar> \<le> 1" using assms by simp
  from round64_bounded [OF is_b64_1 this]
  show "round64 x = Fin (round_real x)" and "round_real x \<le> 1" by simp_all
  show "0 \<le> round_real x" using assms(1) by (rule round_real_nonneg)
qed

lemma FlashSeparator_init_split:
  fixes fluid :: string and P x_in m_dot :: real and s_in :: "real option"
  assumes "FlashSeparator_init PropsSI fluid P x_in m_dot s_in = Some (Inr separator)"
  shows "Fin (m_dot_vap separator) = fmul64 (Fin x_in) (Fin m_dot)"
    and "Fin (m_dot_liq separator) = fmul64 (fsub64 (Fin 1) (Fin x_in)) (Fin m_dot)"
  using assms
  by (auto simp: FlashSeparator_init_def and_then_def Let_def
        split: sum.splits pyfloat.splits)

lemma mass_split_error:
  assumes x: "0 \<le> x" "x \<le> 1"
    and v: "Fin v = fmul64 (Fin x) (Fin m)"
    and l: "Fin l = fmul64 (fsub64 (Fin 1) (Fin x)) (Fin m)"
  shows "\<bar>v + l - m\<bar> \<le> 4 * unit_roundoff * \<bar>m\<bar> + 2 * half_subnormal"
proof -
  define y where "y = round_real (1 - x)"
  have y: "round64 (1 - x) = Fin y" "0 \<le> y" "y \<le> 1"
    using round64_unit_interval [of "1 - x"] x by (simp_all add: y_def)
  have v': "v = round_real (x * m)"
    using v round64_FinD(1) [of "x * m" v] by (simp add: fmul64_Fin)
  have l': "l = round_real (y * m)"
    using l round64_FinD(1) [of "y * m" l] by (simp add: fmul64_Fin fsub64_Fin y(1))
  have xm: "\<bar>x * m\<bar> \<le> \<bar>m\<bar>"
    using x by (simp add: abs_mult mult_left_le_one_le)
  have ym: "\<bar>y * m\<bar> \<le> \<bar>m\<bar>"
    using y by (simp add: abs_mult mult_left_le_one_le)
  have e1: "\<bar>v - x * m\<bar> \<le> \<bar>m\<bar> * unit_roundoff + half_subnormal"
  proof -
    have "\<bar>v - x * m\<bar> \<le> \<bar>x * m\<bar> * unit_roundoff + half_subnormal"
      unfolding v' by (rule round_real_err2)
    moreover have "\<bar>x * m\<bar> * unit_roundoff \<le> \<bar>m\<bar> * unit_roundoff"
      using xm unit_roundoff_pos by (simp add: mult_right_mono)
    ultimately show ?thesis by linarith
  qed
  have e3: "\<bar>l - y * m\<bar> \<le> \<bar>m\<bar> * unit_roundoff + half_subnormal"
  proof -
    have "\<bar>l - y * m\<bar> \<le> \<bar>y * m\<bar> * unit_roundoff + half_subnormal"
      unfolding l' by (rule round_real_err2)
    moreover have "\<bar>y * m\<bar> * unit_roundoff \<le> \<bar>m\<bar> * unit_roundoff"
      using ym unit_roundoff_pos by (simp add: mult_right_mono)
    ultimately show ?thesis by linarith
  qed
  have "\<bar>y - (1 - x)\<bar> \<le> \<bar>1 - x\<bar> * unit_roundoff + half_subnormal"
    unfolding y_def by (rule round_real_err2)
  moreover have "\<bar>1 - x\<bar> * unit_roundoff \<le> 1 * unit_roundoff"
    using x unit_roundoff_pos by (intro mult_right_mono) simp_all
  ultimately have "\<bar>y - (1 - x)\<bar> \<le> 2 * unit_roundoff"
    using half_subnormal_le by linarith
  then have "\<bar>y - (1 - x)\<bar> * \<bar>m\<bar> \<le> 2 * unit_roundoff * \<bar>m\<bar>"
    by (intro mult_right_mono) simp_all
  then have e2: "\<bar>(y - (1 - x)) * m\<bar> \<le> 2 * unit_roundoff * \<bar>m\<bar>"
    by (simp add: abs_mult)
  have "v + l - m = (v - x * m) + (l - y * m) + (y - (1 - x)) * m"
    by (simp add: algebra_simps)
  then have "\<bar>v + l - m\<bar> \<le> \<bar>v - x * m\<bar> + \<bar>l - y * m\<bar> + \<bar>(y - (1 - x)) * m\<bar>"
    by linarith
  with e1 e2 e3 show ?thesis by (simp add: algebra_simps)
qed

lemma mass_split_finite:
  assumes x: "0 \<le> x" "x \<le> 1" and m: "\<bar>m\<bar> \<le> float_max"
  shows "\<exists>v l. fmul64 (Fin x) (Fin m) = Fin v \<and>
               fmul64 (fsub64 (Fin 1) (Fin x)) (Fin m) = Fin l"
proof -
  define y where "y = round_real (1 - x)"
  have y: "round64 (1 - x) = Fin y" "0 \<le> y" "y \<le> 1"
    using round64_unit_interval [of "1 - x"] x by (simp_all add: y_def)
  have "\<bar>x * m\<bar> \<le> \<bar>m\<bar>"
    using x by (simp add: abs_mult mult_left_le_one_le)
  then have "\<bar>x * m\<bar> \<le> float_max" using m by linarith
  from round64_bounded(1) [OF is_b64_float_max this]
  have a: "fmul64 (Fin x) (Fin m) = Fin (round_real (x * m))" by (simp add: fmul64_Fin)
  have "\<bar>y * m\<bar> \<le> \<bar>m\<bar>"
    using y by (simp add: abs_mult mult_left_le_one_le)
  then have "\<bar>y * m\<bar> \<le> float_max" using m by linarith
  from round64_bounded(1) [OF is_b64_float_max this]
  have "fmul64 (fsub64 (Fin 1) (Fin x)) (Fin m) = Fin (round_real (y * m))"
    by (simp add: fmul64_Fin fsub64_Fin y(1))
  with a show ?thesis by blast
qed

section \<open>The claims\<close>

text \<open>
  Claim C1, as amended. When the loop of \<open>solve_property\<close> has run through all
  \<open>max_iterations\<close> passes without returning, what happens next depends on the
  statements after the loop, which no handler guards. If the lookup at the final midpoint
  \<open>(low + high) / 2\<close> returns a value and \<open>target_value\<close> is not zero, then
  \<open>solve_property\<close> returns the final midpoint, the value of the target property
  there and \<open>max_iterations\<close>, and the last thing it prints is the block that says the
  iterations were used up. If that lookup raises, \<open>solve_property\<close> raises the same
  exception; if it returns and \<open>target_value\<close> is zero, the division of the final
  error raises \<open>ZeroDivisionError\<close>. The returned tuple has no field that marks it
  as not converged.
\<close>

theorem solve_property_exhausted:
  fixes fluid :: string
  assumes "bisect (property_at call_coolprop_cli target_prop known_prop known_value
                     unknown_prop fluid)
             target_value tolerance max_iterations 0 min_guess max_guess None
           = (out, Continue low high actual_value)"
  shows "(call_coolprop_cli target_prop known_prop known_value unknown_prop
            ((low + high) / 2) fluid = Inr final_value \<and> target_value \<noteq> 0 \<longrightarrow>
          solve_property call_coolprop_cli target_prop target_value known_prop known_value
            unknown_prop min_guess max_guess fluid tolerance max_iterations =
          (Header # out @
             [NotConvergedLines ((low + high) / 2) final_value
                (\<bar>final_value - target_value\<bar> / \<bar>target_value\<bar>) max_iterations],
           Inr ((low + high) / 2, final_value, max_iterations))) \<and>
         (call_coolprop_cli target_prop known_prop known_value unknown_prop
            ((low + high) / 2) fluid = Inl e \<longrightarrow>
          solve_property call_coolprop_cli target_prop target_value known_prop known_value
            unknown_prop min_guess max_guess fluid tolerance max_iterations =
          (Header # out, Inl e)) \<and>
         (call_coolprop_cli target_prop known_prop known_value unknown_prop
            ((low + high) / 2) fluid = Inr final_value \<and> target_value = 0 \<longrightarrow>
          solve_property call_coolprop_cli target_prop target_value known_prop known_value
            unknown_prop min_guess max_guess fluid tolerance max_iterations =
          (Header # out, Inl ZeroDivisionError))"
  using assms by (auto simp: solve_property_def py_div_def property_at_def Let_def)

text \<open>
  Three runs that meet the hypotheses of the theorem of C1, one for each case: two passes
  on \<open>f(x) = x\<close>, one pass on a service that fails at the final midpoint, and no
  pass with a target of zero.
\<close>

theorem solve_property_exhausted_witness:
  "bisect (property_at (linear_service 1 0) ''S'' ''P'' 100000 ''T'' ''Air'')
      1 (1 / 1000) 2 0 0 16 None
     = ([IterLine 1 8 8 7, IterLine 2 4 4 3], Continue 0 4 (Some 4)) \<and>
   linear_service 1 0 ''S'' ''P'' 100000 ''T'' ((0 + 4) / 2) ''Air'' = Inr 2 \<and>
   (1::real) \<noteq> 0 \<and>
   solve_property (linear_service 1 0) ''S'' 1 ''P'' 100000 ''T'' 0 16 ''Air'' (1 / 1000) 2 =
     ([Header, IterLine 1 8 8 7, IterLine 2 4 4 3, NotConvergedLines 2 2 1 2], Inr (2, 2, 2)) \<and>
   bisect (property_at (single_point_service 2 10) ''S'' ''P'' 100000 ''T'' ''Air'')
      1 (1 / 1000) 1 0 0 4 None
     = ([IterLine 1 2 10 9], Continue 0 2 (Some 10)) \<and>
   single_point_service 2 10 ''S'' ''P'' 100000 ''T'' ((0 + 2) / 2) ''Air''
     = Inl (RuntimeError ''CoolProp CLI failed'') \<and>
   solve_property (single_point_service 2 10) ''S'' 1 ''P'' 100000 ''T'' 0 4 ''Air''
      (1 / 1000) 1 =
     ([Header, IterLine 1 2 10 9], Inl (RuntimeError ''CoolProp CLI failed'')) \<and>
   bisect (property_at (linear_service 1 0) ''S'' ''P'' 100000 ''T'' ''Air'')
      0 (1 / 1000) 0 0 1 3 None = ([], Continue 1 3 None) \<and>
   linear_service 1 0 ''S'' ''P'' 100000 ''T'' ((1 + 3) / 2) ''Air'' = Inr 2 \<and>
   solve_property (linear_service 1 0) ''S'' 0 ''P'' 100000 ''T'' 1 3 ''Air'' (1 / 1000) 0 =
     ([Header], Inl ZeroDivisionError)"
proof -
  have b1: "bisect (property_at (linear_service 1 0) ''S'' ''P'' 100000 ''T'' ''Air'')
      1 (1 / 1000) 2 0 0 16 None
     = ([IterLine 1 8 8 7, IterLine 2 4 4 3], Continue 0 4 (Some 4))"
    by (simp add: solver_eval)
  have l1: "linear_service 1 0 ''S'' ''P'' 100000 ''T'' ((0 + 4) / 2) ''Air'' = Inr 2"
    by (simp add: linear_service_def)
  have b2: "bisect (property_at (single_point_service 2 10) ''S'' ''P'' 100000 ''T'' ''Air'')
      1 (1 / 1000) 1 0 0 4 None
     = ([IterLine 1 2 10 9], Continue 0 2 (Some 10))"
    by (simp add: solver_eval)
  have l2: "single_point_service 2 10 ''S'' ''P'' 100000 ''T'' ((0 + 2) / 2) ''Air''
     = Inl (RuntimeError ''CoolProp CLI failed'')"
    by (simp add: single_point_service_def)
  have b3: "bisect (property_at (linear_service 1 0) ''S'' ''P'' 100000 ''T'' ''Air'')
      0 (1 / 1000) 0 0 1 3 None = ([], Continue 1 3 None)"
    by (simp add: solver_eval)
  have l3: "linear_service 1 0 ''S'' ''P'' 100000 ''T'' ((1 + 3) / 2) ''Air'' = Inr 2"
    by (simp add: linear_service_def)
  note t1 = solve_property_exhausted [OF b1, of 2]
  note t2 = solve_property_exhausted [OF b2, of _ "RuntimeError ''CoolProp CLI failed''"]
  note t3 = solve_property_exhausted [OF b3, of 2]
  show ?thesis
    using t1 t2 t3 b1 l1 b2 l2 b3 l3 by simp
qed

text \<open>
  Claim C1 as first stated says that a call whose loop runs to its end does not fail. A
  property service that knows the state at the guess 2 only answers the single pass of the
  loop and fails at the final midpoint 1, and \<open>solve_property\<close> raises that error.
  With no pass at all and a target of zero the division after the loop raises.
\<close>

theorem solve_property_exhausted_counterexample:
  "bisect (property_at (single_point_service 2 10) ''S'' ''P'' 100000 ''T'' ''Air'')
      1 (1 / 1000) 1 0 0 4 None
     = ([IterLine 1 2 10 9], Continue 0 2 (Some 10)) \<and>
   solve_property (single_point_service 2 10) ''S'' 1 ''P'' 100000 ''T'' 0 4 ''Air''
      (1 / 1000) 1 =
     ([Header, IterLine 1 2 10 9], Inl (RuntimeError ''CoolProp CLI failed'')) \<and>
   solve_property (linear_service 1 0) ''S'' 0 ''P'' 100000 ''T'' 1 3 ''Air'' (1 / 1000) 0 =
     ([Header], Inl ZeroDivisionError)"
  by (simp add: solver_eval)

text \<open>
  Claim C2, as amended. A lookup that raises at the first midpoint makes
  \<open>solve_property\<close> raise the same exception: in the first pass, after the line of the
  failed iteration, or after the loop when \<open>max_iterations\<close> allows no pass. Let the
  first \<open>k\<close> passes of a call have gone on, \<open>0 < k < max_iterations\<close>, leaving the
  bracket \<open>[low, high]\<close> and having printed \<open>out\<close>, and let the lookup of the next
  pass raise. Then \<open>actual_value\<close> is bound, to the value \<open>a\<close> of the last lookup
  that returned, and the call does not end in that pass: it prints the line of the failed
  iteration, moves the bound that the stale value selects, \<open>low\<close> when \<open>a\<close> is
  below the target and \<open>high\<close> otherwise, and its result is the result of the loop
  continued at iteration \<open>k + 1\<close> on the narrowed bracket, followed by the statements
  after the loop. The call as a whole may still raise later, in the handler-free
  statements after the loop.
\<close>

theorem lookup_failure_policy:
  fixes fluid :: string
  shows
  "(call_coolprop_cli target_prop known_prop known_value unknown_prop
       ((min_guess + max_guess) / 2) fluid = Inl e \<longrightarrow>
    solve_property call_coolprop_cli target_prop target_value known_prop known_value
      unknown_prop min_guess max_guess fluid tolerance max_iterations =
    (if 0 < max_iterations then [Header, IterError 1 ((min_guess + max_guess) / 2) e]
     else [Header], Inl e)) \<and>
   (bisect (property_at call_coolprop_cli target_prop known_prop known_value
              unknown_prop fluid)
      target_value tolerance k 0 min_guess max_guess None
      = (out, Continue low high actual_value) \<and>
    0 < k \<and> k < max_iterations \<and>
    call_coolprop_cli target_prop known_prop known_value unknown_prop
      ((low + high) / 2) fluid = Inl e' \<longrightarrow>
    (\<exists>a. actual_value = Some a \<and>
      solve_property call_coolprop_cli target_prop target_value known_prop known_value
        unknown_prop min_guess max_guess fluid tolerance max_iterations =
      (let f = property_at call_coolprop_cli target_prop known_prop known_value
                 unknown_prop fluid;
           guess = (low + high) / 2;
           printed = Header # out @ [IterError (k + 1) guess e']
       in case bisect f target_value tolerance max_iterations (k + 1)
                 (if a < target_value then guess else low)
                 (if a < target_value then high else guess) (Some a) of
            (rest, Return r) \<Rightarrow> (printed @ rest, Inr r)
          | (rest, Raise e'') \<Rightarrow> (printed @ rest, Inl e'')
          | (rest, Continue low' high' actual_value') \<Rightarrow>
              (case f ((low' + high') / 2) of
                 Inl e'' \<Rightarrow> (printed @ rest, Inl e'')
               | Inr final_value \<Rightarrow>
                   (case py_div \<bar>final_value - target_value\<bar> \<bar>target_value\<bar> of
                      Inl e'' \<Rightarrow> (printed @ rest, Inl e'')
                    | Inr final_error \<Rightarrow>
                        (printed @ rest @
                           [NotConvergedLines ((low' + high') / 2) final_value final_error
                              max_iterations],
                         Inr ((low' + high') / 2, final_value, max_iterations)))))))"
proof (intro conjI impI)
  assume "call_coolprop_cli target_prop known_prop known_value unknown_prop
       ((min_guess + max_guess) / 2) fluid = Inl e"
  then have f: "property_at call_coolprop_cli target_prop known_prop known_value
       unknown_prop fluid ((min_guess + max_guess) / 2) = Inl e"
    by (simp add: property_at_def)
  show "solve_property call_coolprop_cli target_prop target_value known_prop known_value
      unknown_prop min_guess max_guess fluid tolerance max_iterations =
    (if 0 < max_iterations then [Header, IterError 1 ((min_guess + max_guess) / 2) e]
     else [Header], Inl e)"
  proof (cases "0 < max_iterations")
    case True
    then show ?thesis
      using f by (simp add: solve_property_def bisect_start_failure)
  next
    case False
    then show ?thesis
      using f by (simp add: solve_property_def bisect_done Let_def)
  qed
next
  let ?f = "property_at call_coolprop_cli target_prop known_prop known_value
              unknown_prop fluid"
  assume h: "bisect ?f target_value tolerance k 0 min_guess max_guess None
      = (out, Continue low high actual_value) \<and>
    0 < k \<and> k < max_iterations \<and>
    call_coolprop_cli target_prop known_prop known_value unknown_prop
      ((low + high) / 2) fluid = Inl e'"
  then have run: "bisect ?f target_value tolerance k 0 min_guess max_guess None
      = (out, Continue low high actual_value)"
    and k: "0 < k" "k < max_iterations"
    and fail: "?f ((low + high) / 2) = Inl e'"
    by (simp_all add: property_at_def)
  from bisect_binds [OF refl k(1) _ run] obtain a where a: "actual_value = Some a"
    by auto
  have lb: "loop_body ?f target_value tolerance k low high (Some a) =
      ([IterError (k + 1) ((low + high) / 2) e'],
       if a < target_value then Continue ((low + high) / 2) high (Some a)
       else Continue low ((low + high) / 2) (Some a))"
    using k fail by (simp add: loop_body_def except_handler_def Let_def)
  have step: "bisect ?f target_value tolerance max_iterations k low high (Some a) =
      (case bisect ?f target_value tolerance max_iterations (k + 1)
              (if a < target_value then (low + high) / 2 else low)
              (if a < target_value then high else (low + high) / 2) (Some a) of
         (rest, fl) \<Rightarrow> (IterError (k + 1) ((low + high) / 2) e' # rest, fl))"
    using k by (simp add: bisect_step lb split: prod.splits)
  have whole: "bisect ?f target_value tolerance max_iterations 0 min_guess max_guess None =
      (case bisect ?f target_value tolerance max_iterations k low high (Some a) of
         (out', fl) \<Rightarrow> (out @ out', fl))"
    using bisect_split [OF refl _ _ run [unfolded a], of max_iterations] k by simp
  obtain rest fl where r: "bisect ?f target_value tolerance max_iterations (k + 1)
              (if a < target_value then (low + high) / 2 else low)
              (if a < target_value then high else (low + high) / 2) (Some a) = (rest, fl)"
    by (cases "bisect ?f target_value tolerance max_iterations (k + 1)
              (if a < target_value then (low + high) / 2 else low)
              (if a < target_value then high else (low + high) / 2) (Some a)")
  have b: "bisect ?f target_value tolerance max_iterations 0 min_guess max_guess None =
      (out @ IterError (k + 1) ((low + high) / 2) e' # rest, fl)"
    using whole step r by simp
  have "solve_property call_coolprop_cli target_prop target_value known_prop known_value
        unknown_prop min_guess max_guess fluid tolerance max_iterations =
      (let f = ?f;
           guess = (low + high) / 2;
           printed = Header # out @ [IterError (k + 1) guess e']
       in case bisect f target_value tolerance max_iterations (k + 1)
                 (if a < target_value then guess else low)
                 (if a < target_value then high else guess) (Some a) of
            (rest, Return r) \<Rightarrow> (printed @ rest, Inr r)
          | (rest, Raise e'') \<Rightarrow> (printed @ rest, Inl e'')
          | (rest, Continue low' high' actual_value') \<Rightarrow>
              (case f ((low' + high') / 2) of
                 Inl e'' \<Rightarrow> (printed @ rest, Inl e'')
               | Inr final_value \<Rightarrow>
                   (case py_div \<bar>final_value - target_value\<bar> \<bar>target_value\<bar> of
                      Inl e'' \<Rightarrow> (printed @ rest, Inl e'')
                    | Inr final_error \<Rightarrow>
                        (printed @ rest @
                           [NotConvergedLines ((low' + high') / 2) final_value final_error
                              max_iterations],
                         Inr ((low' + high') / 2, final_value, max_iterations)))))"
    unfolding solve_property_def Let_def b r
    by (cases fl) (simp_all split: sum.splits)
  with a show "\<exists>a. actual_value = Some a \<and>
      solve_property call_coolprop_cli target_prop target_value known_prop known_value
        unknown_prop min_guess max_guess fluid tolerance max_iterations =
      (let f = ?f;
           guess = (low + high) / 2;
           printed = Header # out @ [IterError (k + 1) guess e']
       in case bisect f target_value tolerance max_iterations (k + 1)
                 (if a < target_value then guess else low)
                 (if a < target_value then high else guess) (Some a) of
            (rest, Return r) \<Rightarrow> (printed @ rest, Inr r)
          | (rest, Raise e'') \<Rightarrow> (printed @ rest, Inl e'')
          | (rest, Continue low' high' actual_value') \<Rightarrow>
              (case f ((low' + high') / 2) of
                 Inl e'' \<Rightarrow> (printed @ rest, Inl e'')
               | Inr final_value \<Rightarrow>
                   (case py_div \<bar>final_value - target_value\<bar> \<bar>target_value\<bar> of
                      Inl e'' \<Rightarrow> (printed @ rest, Inl e'')
                    | Inr final_error \<Rightarrow>
                        (printed @ rest @
                           [NotConvergedLines ((low' + high') / 2) final_value final_error
                              max_iterations],
                         Inr ((low' + high') / 2, final_value, max_iterations)))))"
    by blast
qed

text \<open>
  Both parts of C2: a service that fails at the first midpoint, and a service that fails
  at the guess 4 only, where the call for the target 3 on \<open>[0, 16]\<close> goes on after the
  failed second pass with the bracket \<open>[0, 4]\<close> and converges in the fourth pass.
\<close>

theorem lookup_failure_policy_witness:
  "(single_point_service 2 10 ''S'' ''P'' 100000 ''T'' ((0 + 2) / 2) ''Air''
      = Inl (RuntimeError ''CoolProp CLI failed'') \<and>
    solve_property (single_point_service 2 10) ''S'' 1 ''P'' 100000 ''T'' 0 2 ''Air''
       (1 / 1000) 50 =
      ([Header, IterError 1 1 (RuntimeError ''CoolProp CLI failed'')],
       Inl (RuntimeError ''CoolProp CLI failed''))) \<and>
   (bisect (property_at (gap_service 4 (\<lambda>x. x)) ''S'' ''P'' 100000 ''T'' ''Air'')
       3 (1 / 1000) 1 0 0 16 None
      = ([IterLine 1 8 8 (5 / 3)], Continue 0 8 (Some 8)) \<and>
    (0::int) < 1 \<and> (1::int) < 50 \<and>
    gap_service 4 (\<lambda>x. x) ''S'' ''P'' 100000 ''T'' ((0 + 8) / 2) ''Air''
      = Inl (RuntimeError ''CoolProp CLI failed'') \<and>
    solve_property (gap_service 4 (\<lambda>x. x)) ''S'' 3 ''P'' 100000 ''T'' 0 16 ''Air''
       (1 / 1000) 50 =
      ([Header, IterLine 1 8 8 (5 / 3), IterError 2 4 (RuntimeError ''CoolProp CLI failed''),
        IterLine 3 2 2 (1 / 3), IterLine 4 3 3 0, ConvergedLines 3 3 0 4],
       Inr (3, 3, 4)))"
proof (rule conjI)
  have c: "single_point_service 2 10 ''S'' ''P'' 100000 ''T'' ((0 + 2) / 2) ''Air''
     = Inl (RuntimeError ''CoolProp CLI failed'')"
    by (simp add: single_point_service_def)
  note th = lookup_failure_policy
    [where call_coolprop_cli = "single_point_service 2 10" and target_prop = "''S''"
       and known_prop = "''P''" and known_value = 100000 and unknown_prop = "''T''"
       and min_guess = 0 and max_guess = 2 and fluid = "''Air''"
       and e = "RuntimeError ''CoolProp CLI failed''" and target_value = 1
       and tolerance = "1 / 1000" and max_iterations = 50]
  show "single_point_service 2 10 ''S'' ''P'' 100000 ''T'' ((0 + 2) / 2) ''Air''
      = Inl (RuntimeError ''CoolProp CLI failed'') \<and>
    solve_property (single_point_service 2 10) ''S'' 1 ''P'' 100000 ''T'' 0 2 ''Air''
       (1 / 1000) 50 =
      ([Header, IterError 1 1 (RuntimeError ''CoolProp CLI failed'')],
       Inl (RuntimeError ''CoolProp CLI failed''))"
    using th c by simp
next
  have b: "bisect (property_at (gap_service 4 (\<lambda>x. x)) ''S'' ''P'' 100000 ''T'' ''Air'')
       3 (1 / 1000) 1 0 0 16 None
      = ([IterLine 1 8 8 (5 / 3)], Continue 0 8 (Some 8))"
    by (simp add: solver_eval)
  have c: "gap_service 4 (\<lambda>x. x) ''S'' ''P'' 100000 ''T'' ((0 + 8) / 2) ''Air''
      = Inl (RuntimeError ''CoolProp CLI failed'')"
    by (simp add: gap_service_def)
  have rest: "bisect (property_at (gap_service 4 (\<lambda>x. x)) ''S'' ''P'' 100000 ''T'' ''Air'')
       3 (1 / 1000) 50 2 0 4 (Some 8)
      = ([IterLine 3 2 2 (1 / 3), IterLine 4 3 3 0, ConvergedLines 3 3 0 4],
         Return (3, 3, 4))"
    by (simp add: solver_eval)
  note th = lookup_failure_policy
    [where call_coolprop_cli = "gap_service 4 (\<lambda>x. x)" and target_prop = "''S''"
       and known_prop = "''P''" and known_value = 100000 and unknown_prop = "''T''"
       and min_guess = 0 and max_guess = 16 and fluid = "''Air''"
       and e' = "RuntimeError ''CoolProp CLI failed''" and target_value = 3
       and tolerance = "1 / 1000" and max_iterations = 50 and k = 1
       and out = "[IterLine 1 8 8 (5 / 3)]" and low = 0 and high = 8
       and actual_value = "Some 8"]
  show "bisect (property_at (gap_service 4 (\<lambda>x. x)) ''S'' ''P'' 100000 ''T'' ''Air'')
       3 (1 / 1000) 1 0 0 16 None
      = ([IterLine 1 8 8 (5 / 3)], Continue 0 8 (Some 8)) \<and>
    (0::int) < 1 \<and> (1::int) < 50 \<and>
    gap_service 4 (\<lambda>x. x) ''S'' ''P'' 100000 ''T'' ((0 + 8) / 2) ''Air''
      = Inl (RuntimeError ''CoolProp CLI failed'') \<and>
    solve_property (gap_service 4 (\<lambda>x. x)) ''S'' 3 ''P'' 100000 ''T'' 0 16 ''Air''
       (1 / 1000) 50 =
      ([Header, IterLine 1 8 8 (5 / 3), IterError 2 4 (RuntimeError ''CoolProp CLI failed''),
        IterLine 3 2 2 (1 / 3), IterLine 4 3 3 0, ConvergedLines 3 3 0 4],
       Inr (3, 3, 4))"
    using th b c rest by (simp add: Let_def)
qed

text \<open>
  Claim C2 as first stated says that \<open>solve_property\<close> does not abort when a lookup
  raises after a pass that succeeded. With two iterations and a service that knows the
  state at the guess 2 only, the first pass succeeds, the second raises and narrows the
  bracket to \<open>[0, 1]\<close>, and the lookup after the loop raises: the call ends with that
  exception.
\<close>

theorem lookup_failure_counterexample:
  "single_point_service 2 10 ''S'' ''P'' 100000 ''T'' ((0 + 4) / 2) ''Air'' = Inr 10 \<and>
   single_point_service 2 10 ''S'' ''P'' 100000 ''T'' ((0 + 2) / 2) ''Air''
     = Inl (RuntimeError ''CoolProp CLI failed'') \<and>
   solve_property (single_point_service 2 10) ''S'' 1 ''P'' 100000 ''T'' 0 4 ''Air''
      (1 / 1000) 2 =
     ([Header, IterLine 1 2 10 9, IterError 2 1 (RuntimeError ''CoolProp CLI failed'')],
      Inl (RuntimeError ''CoolProp CLI failed''))"
  by (simp add: solver_eval)




text \<open>
  Claim C4, as amended. \<open>solve_property\<close> has no test of \<open>target_value\<close>: with a
  target of zero it raises at the first lookup point, the exception of the lookup when the
  lookup fails and \<open>ZeroDivisionError\<close> when it returns. \<open>main\<close> tests
  \<open>m_dot_c\<close> before it divides by it and takes \<open>mu = inf\<close> for \<open>m_dot_c = 0\<close>,
  reporting no error. \<open>evaluate_case\<close> tests \<open>mu\<close> before it divides by it: for
  \<open>mu = 0\<close> the hot outlet enthalpy, the hot outlet temperature and the approach
  temperature of the second case are \<open>None\<close>.
\<close>

theorem zero_divisor_handling:
  fixes fluid :: string
  shows
  "snd (solve_property call_coolprop_cli target_prop 0 known_prop known_value
          unknown_prop min_guess max_guess fluid tolerance max_iterations) =
     Inl (case call_coolprop_cli target_prop known_prop known_value unknown_prop
                 ((min_guess + max_guess) / 2) fluid of
            Inl e \<Rightarrow> e | Inr v \<Rightarrow> ZeroDivisionError) \<and>
   (main PropsSI m_dot_h 0 = Inr rep \<longrightarrow> rep_mu rep = PInf) \<and>
   (evaluate_case PropsSI (Fin 0) h_h_in h_c_in False =
      Inr (T_h_out, h_h_out, h_c_out, T_c_out, dT_other) \<longrightarrow>
      T_h_out = None \<and> h_h_out = None \<and> dT_other = None)"
proof (intro conjI impI)
  show "snd (solve_property call_coolprop_cli target_prop 0 known_prop known_value
          unknown_prop min_guess max_guess fluid tolerance max_iterations) =
     Inl (case call_coolprop_cli target_prop known_prop known_value unknown_prop
                 ((min_guess + max_guess) / 2) fluid of
            Inl e \<Rightarrow> e | Inr v \<Rightarrow> ZeroDivisionError)"
    by (rule solve_property_zero_target)
next
  assume "main PropsSI m_dot_h 0 = Inr rep"
  from main_mu [OF this] show "rep_mu rep = PInf" by simp
next
  assume e: "evaluate_case PropsSI (Fin 0) h_h_in h_c_in False =
      Inr (T_h_out, h_h_out, h_c_out, T_c_out, dT_other)"
  then show "T_h_out = None" "h_h_out = None" "dT_other = None"
    by (auto simp: evaluate_case_def and_then_def Let_def split: sum.splits)
qed

text \<open>
  Runs for the theorem of C4: \<open>main\<close> with \<open>m_dot_c = 0\<close> on a property function
  that cannot invert enthalpy, the second case with \<open>mu = 0\<close>, and the solver with a
  target of zero.
\<close>

theorem zero_divisor_handling_witness:
  "main no_inverse_props 2 0 =
     Inr \<lparr>rep_mu = PInf,
          rep_case1 = (Some 322, Some (Fin 322000), PInf, None, Some 410),
          rep_case2 = (None, Some (Fin 720000), Fin 708000, Some 708, None),
          rep_label1 = None, rep_label2 = None, rep_analysed = None,
          rep_boundary = None, rep_exergy = None, rep_efficiency = None\<rparr> \<and>
   evaluate_case ideal_props (Fin 0) 720000 310000 False =
     Inr (None, None, Fin 708000, Some 708, None) \<and>
   snd (solve_property (linear_service 1 0) ''S'' 0 ''P'' 100000 ''T'' 1 3 ''Air''
          (1 / 1000) 50) = Inl ZeroDivisionError"
proof -
  have m: "main no_inverse_props 2 0 =
     Inr \<lparr>rep_mu = PInf,
          rep_case1 = (Some 322, Some (Fin 322000), PInf, None, Some 410),
          rep_case2 = (None, Some (Fin 720000), Fin 708000, Some 708, None),
          rep_label1 = None, rep_label2 = None, rep_analysed = None,
          rep_boundary = None, rep_exergy = None, rep_efficiency = None\<rparr>"
    by (simp add: cf_eval)
  have e: "evaluate_case ideal_props (Fin 0) 720000 310000 False =
     Inr (None, None, Fin 708000, Some 708, None)"
    by (simp add: cf_eval)
  note th = zero_divisor_handling
    [where call_coolprop_cli = "linear_service 1 0" and target_prop = "''S''"
       and known_prop = "''P''" and known_value = 100000 and unknown_prop = "''T''"
       and min_guess = 1 and max_guess = 3 and fluid = "''Air''" and tolerance = "1 / 1000"
       and max_iterations = 50 and PropsSI = no_inverse_props and m_dot_h = 2]
  show ?thesis
    using th m e by (simp add: linear_service_def)
qed

text \<open>
  Claim C4 as first stated says that no \<open>ZeroDivisionError\<close> leaves
  \<open>solve_property\<close> or the counterflow program. With a target of zero
  \<open>solve_property\<close> raises it in its first pass. With \<open>m_dot_c = 0\<close> and the
  synthetic property function, \<open>main\<close> takes the second case, whose hot outlet equals
  the hot inlet, and the unguarded division in \<open>compute_boundary_temperatures\<close> raises.
\<close>

theorem zero_divisor_counterexample:
  "solve_property (linear_service 1 0) ''S'' 0 ''P'' 100000 ''T'' 1 3 ''Air'' (1 / 1000) 50 =
     ([Header, IterError 1 2 ZeroDivisionError], Inl ZeroDivisionError) \<and>
   main ideal_props 2 0 = Inl ZeroDivisionError"
proof
  show "solve_property (linear_service 1 0) ''S'' 0 ''P'' 100000 ''T'' 1 3 ''Air''
          (1 / 1000) 50 =
     ([Header, IterError 1 2 ZeroDivisionError], Inl ZeroDivisionError)"
    by (simp add: solve_property_def bisect_zero_target property_at_def linear_service_def)
  show "main ideal_props 2 0 = Inl ZeroDivisionError"
    by (simp add: cf_eval)
qed




text \<open>
  Claim C6. In a run of \<open>main\<close> that ends normally the first case has its pinch at the
  hot outlet and the second at the cold outlet. The word printed for a case whose outlet
  temperature was obtained is \<open>FEASIBLE\<close> exactly when the approach temperature at
  the opposite end is at least \<open>dTmin\<close>; nothing is printed for a case whose
  temperature could not be obtained. The analysis runs for the first case when it is
  \<open>FEASIBLE\<close>, else for the second when that is \<open>FEASIBLE\<close>, else not at all:
  the boundary temperatures, the exergy destruction and the efficiency of the report are
  those of \<open>analyse\<close> on the case taken, and all three are absent when no case is taken.
\<close>

theorem feasibility_gates_analysis:
  assumes "main PropsSI m_dot_h m_dot_c = Inr rep"
    and "rep_case1 rep =
           (T_h_out_case1, h_h_out_case1, h_c_out_case1, T_c_out_case1, dT_other1)"
    and "rep_case2 rep =
           (T_h_out_case2, h_h_out_case2, h_c_out_case2, T_c_out_case2, dT_other2)"
  shows
    "T_h_out_case1 = Some (T_c_in + dTmin) \<and>
     dT_other1 = Some (T_h_in - (case T_c_out_case1 of Some T \<Rightarrow> T | None \<Rightarrow> T_c_in)) \<and>
     T_c_out_case2 = Some (T_h_in - dTmin) \<and>
     dT_other2 = (case T_h_out_case2 of None \<Rightarrow> None | Some T \<Rightarrow> Some (T - T_c_in)) \<and>
     rep_label1 rep =
       (case T_c_out_case1 of
          None \<Rightarrow> None
        | Some T \<Rightarrow> Some (if T_h_in - T \<ge> dTmin then FEASIBLE else INFEASIBLE)) \<and>
     rep_label2 rep =
       (case T_h_out_case2 of
          None \<Rightarrow> None
        | Some T \<Rightarrow> Some (if T - T_c_in \<ge> dTmin then FEASIBLE else INFEASIBLE)) \<and>
     rep_analysed rep =
       (if rep_label1 rep = Some FEASIBLE then Some True
        else if rep_label2 rep = Some FEASIBLE then Some False else None) \<and>
     (case rep_analysed rep of
        None \<Rightarrow> rep_boundary rep = None \<and> rep_exergy rep = None \<and> rep_efficiency rep = None
      | Some pinch_hot \<Rightarrow>
          (\<exists>b X eta.
             analyse PropsSI m_dot_h m_dot_c
               (if pinch_hot then T_h_out_case1 else T_h_out_case2)
               (if pinch_hot then T_c_out_case1 else T_c_out_case2) = Inr (b, X, eta) \<and>
             rep_boundary rep = Some b \<and> rep_exergy rep = Some X \<and>
             rep_efficiency rep = Some eta))"
proof -
  from assms(1) obtain h_h_in h_c_in Th1 hh1 hc1 Tc1 dT1 Th2 hh2 hc2 Tc2 dT2 l1 l2 where
    e1: "evaluate_case PropsSI (if m_dot_c \<noteq> 0 then Fin (m_dot_h / m_dot_c) else PInf)
       h_h_in h_c_in True = Inr (Th1, hh1, hc1, Tc1, dT1)"
    and e2: "evaluate_case PropsSI (if m_dot_c \<noteq> 0 then Fin (m_dot_h / m_dot_c) else PInf)
       h_h_in h_c_in False = Inr (Th2, hh2, hc2, Tc2, dT2)"
    and p1: "printed_label Tc1 dT1 = Inr l1" and p2: "printed_label Th2 dT2 = Inr l2"
    and ch: "choose_and_analyse PropsSI m_dot_h m_dot_c
           \<lparr>rep_mu = (if m_dot_c \<noteq> 0 then Fin (m_dot_h / m_dot_c) else PInf),
            rep_case1 = (Th1, hh1, hc1, Tc1, dT1),
            rep_case2 = (Th2, hh2, hc2, Tc2, dT2),
            rep_label1 = l1, rep_label2 = l2, rep_analysed = None,
            rep_boundary = None, rep_exergy = None, rep_efficiency = None\<rparr> = Inr rep"
    by (rule main_front)
  let ?rep0 = "\<lparr>rep_mu = (if m_dot_c \<noteq> 0 then Fin (m_dot_h / m_dot_c) else PInf),
            rep_case1 = (Th1, hh1, hc1, Tc1, dT1),
            rep_case2 = (Th2, hh2, hc2, Tc2, dT2),
            rep_label1 = l1, rep_label2 = l2, rep_analysed = None,
            rep_boundary = None, rep_exergy = None, rep_efficiency = None\<rparr>"
  have c1eq: "rep_case1 ?rep0 = (Th1, hh1, hc1, Tc1, dT1)"
    and c2eq: "rep_case2 ?rep0 = (Th2, hh2, hc2, Tc2, dT2)" by simp_all
  from choose_and_analyse_Inr [OF ch c1eq c2eq]
  obtain c1 where cf1: "carried_forward Tc1 dT1 = Inr c1"
    and yes: "c1 \<Longrightarrow> \<exists>b X eta. analyse PropsSI m_dot_h m_dot_c Th1 Tc1 = Inr (b, X, eta) \<and>
           rep = ?rep0\<lparr>rep_analysed := Some True, rep_boundary := Some b,
                      rep_exergy := Some X, rep_efficiency := Some eta\<rparr>"
    and no: "\<not> c1 \<Longrightarrow> \<exists>c2. carried_forward Th2 dT2 = Inr c2 \<and>
           (if c2 then
              \<exists>b X eta. analyse PropsSI m_dot_h m_dot_c Th2 Tc2 = Inr (b, X, eta) \<and>
                rep = ?rep0\<lparr>rep_analysed := Some False, rep_boundary := Some b,
                           rep_exergy := Some X, rep_efficiency := Some eta\<rparr>
            else rep = ?rep0)"
    by blast
  note h = evaluate_case_hot [OF e1]
  note c = evaluate_case_cold [OF e2]
  have l1: "l1 = (case Tc1 of None \<Rightarrow> None
                  | Some T \<Rightarrow> Some (if T_h_in - T \<ge> dTmin then FEASIBLE else INFEASIBLE))"
    using printed_label_Inr [OF p1] h by (simp split: option.splits)
  have l2: "l2 = (case Th2 of None \<Rightarrow> None
                  | Some T \<Rightarrow> Some (if T - T_c_in \<ge> dTmin then FEASIBLE else INFEASIBLE))"
    using printed_label_Inr [OF p2] c by (simp split: option.splits)
  have c1: "c1 = (l1 = Some FEASIBLE)"
    using carried_forward_Inr [OF cf1] h l1 by (simp split: option.splits)
  have fields: "rep_case1 rep = (Th1, hh1, hc1, Tc1, dT1) \<and>
      rep_case2 rep = (Th2, hh2, hc2, Tc2, dT2) \<and> rep_label1 rep = l1 \<and> rep_label2 rep = l2"
  proof (cases c1)
    case True
    from yes [OF this] show ?thesis by auto
  next
    case False
    from no [OF this] show ?thesis by (auto split: if_splits)
  qed
  with assms(2,3) have names: "T_h_out_case1 = Th1" "T_c_out_case1 = Tc1" "dT_other1 = dT1"
    "T_h_out_case2 = Th2" "T_c_out_case2 = Tc2" "dT_other2 = dT2"
    by simp_all
  from fields have f3: "rep_label1 rep = l1" and f4: "rep_label2 rep = l2" by blast+
  have sel: "rep_analysed rep =
       (if l1 = Some FEASIBLE then Some True
        else if l2 = Some FEASIBLE then Some False else None) \<and>
     (case rep_analysed rep of
        None \<Rightarrow> rep_boundary rep = None \<and> rep_exergy rep = None \<and> rep_efficiency rep = None
      | Some pinch_hot \<Rightarrow>
          (\<exists>b X eta.
             analyse PropsSI m_dot_h m_dot_c
               (if pinch_hot then Th1 else Th2)
               (if pinch_hot then Tc1 else Tc2) = Inr (b, X, eta) \<and>
             rep_boundary rep = Some b \<and> rep_exergy rep = Some X \<and>
             rep_efficiency rep = Some eta))"
  proof (cases c1)
    case True
    from yes [OF this] True c1 show ?thesis by auto
  next
    case False
    from no [OF this] obtain c2 where cf2: "carried_forward Th2 dT2 = Inr c2"
      and r: "if c2 then
              \<exists>b X eta. analyse PropsSI m_dot_h m_dot_c Th2 Tc2 = Inr (b, X, eta) \<and>
                rep = ?rep0\<lparr>rep_analysed := Some False, rep_boundary := Some b,
                           rep_exergy := Some X, rep_efficiency := Some eta\<rparr>
            else rep = ?rep0"
      by blast
    have c2: "c2 = (l2 = Some FEASIBLE)"
      using carried_forward_Inr [OF cf2] c l2 by (simp split: option.splits)
    show ?thesis
    proof (cases c2)
      case True
      with r False c1 c2 show ?thesis by auto
    next
      case c2f: False
      with r have "rep = ?rep0" by simp
      with False c1 c2 c2f show ?thesis by simp
    qed
  qed
  have A: "Th1 = Some (T_c_in + dTmin)"
    "dT1 = Some (T_h_in - (case Tc1 of Some T \<Rightarrow> T | None \<Rightarrow> T_c_in))"
    using h by blast+
  have B: "Tc2 = Some (T_h_in - dTmin)"
    "dT2 = (case Th2 of None \<Rightarrow> None | Some T \<Rightarrow> Some (T - T_c_in))"
    using c by blast+
  have L1: "rep_label1 rep = (case Tc1 of None \<Rightarrow> None
                  | Some T \<Rightarrow> Some (if T_h_in - T \<ge> dTmin then FEASIBLE else INFEASIBLE))"
    unfolding f3 by (rule l1)
  have L2: "rep_label2 rep = (case Th2 of None \<Rightarrow> None
                  | Some T \<Rightarrow> Some (if T - T_c_in \<ge> dTmin then FEASIBLE else INFEASIBLE))"
    unfolding f4 by (rule l2)
  have S1: "rep_analysed rep =
       (if rep_label1 rep = Some FEASIBLE then Some True
        else if rep_label2 rep = Some FEASIBLE then Some False else None)"
    unfolding f3 f4 using sel by blast
  have S2: "case rep_analysed rep of
        None \<Rightarrow> rep_boundary rep = None \<and> rep_exergy rep = None \<and> rep_efficiency rep = None
      | Some pinch_hot \<Rightarrow>
          (\<exists>b X eta.
             analyse PropsSI m_dot_h m_dot_c
               (if pinch_hot then Th1 else Th2)
               (if pinch_hot then Tc1 else Tc2) = Inr (b, X, eta) \<and>
             rep_boundary rep = Some b \<and> rep_exergy rep = Some X \<and>
             rep_efficiency rep = Some eta)"
    using sel by blast
  show ?thesis
    unfolding names by (intro conjI A B L1 L2 S1 S2)
qed

text \<open>
  A run on the synthetic property function with the default mass flows: the first case is
  \<open>INFEASIBLE\<close>, the second \<open>FEASIBLE\<close>, and the analysis is that of the second.
\<close>

theorem feasibility_gates_analysis_witness:
  "main ideal_props 2 (6 / 5) =
     Inr \<lparr>rep_mu = Fin (5 / 3),
          rep_case1 = (Some 322, Some (Fin 322000), Fin (2920000 / 3), Some (2920 / 3),
                       Some (- (760 / 3))),
          rep_case2 = (Some (2406 / 5), Some (Fin 481200), Fin 708000, Some 708,
                       Some (856 / 5)),
          rep_label1 = Some INFEASIBLE, rep_label2 = Some FEASIBLE,
          rep_analysed = Some False,
          rep_boundary = Some (500, 500, 477600, 720000, 481200, 1440, 4812 / 5, 310000,
                               708000, 620, 1416),
          rep_exergy = Some (0, 0), rep_efficiency = Some (Fin 1)\<rparr> \<and>
   Some (322::real) = Some (T_c_in + dTmin) \<and> Some (708::real) = Some (T_h_in - dTmin) \<and>
   \<not> T_h_in - 2920 / 3 \<ge> dTmin \<and> 2406 / 5 - T_c_in \<ge> dTmin \<and>
   analyse ideal_props 2 (6 / 5) (Some (2406 / 5)) (Some 708) =
     Inr ((500, 500, 477600, 720000, 481200, 1440, 4812 / 5, 310000, 708000, 620, 1416),
          (0, 0), Fin 1)"
proof -
  let ?rep = "\<lparr>rep_mu = Fin (5 / 3),
          rep_case1 = (Some 322, Some (Fin 322000), Fin (2920000 / 3), Some (2920 / 3),
                       Some (- (760 / 3))),
          rep_case2 = (Some (2406 / 5), Some (Fin 481200), Fin 708000, Some 708,
                       Some (856 / 5)),
          rep_label1 = Some INFEASIBLE, rep_label2 = Some FEASIBLE,
          rep_analysed = Some False,
          rep_boundary = Some (500, 500, 477600, 720000, 481200, 1440, 4812 / 5, 310000,
                               708000, 620, 1416),
          rep_exergy = Some (0, 0), rep_efficiency = Some (Fin 1)\<rparr>"
  have m: "main ideal_props 2 (6 / 5) = Inr ?rep"
    by (simp add: cf_eval)
  have c1: "rep_case1 ?rep = (Some 322, Some (Fin 322000), Fin (2920000 / 3), Some (2920 / 3),
                       Some (- (760 / 3)))"
    and c2: "rep_case2 ?rep = (Some (2406 / 5), Some (Fin 481200), Fin 708000, Some 708,
                       Some (856 / 5))"
    by simp_all
  have a: "analyse ideal_props 2 (6 / 5) (Some (2406 / 5)) (Some 708) =
     Inr ((500, 500, 477600, 720000, 481200, 1440, 4812 / 5, 310000, 708000, 620, 1416),
          (0, 0), Fin 1)"
    by (simp add: cf_eval)
  note th = feasibility_gates_analysis [OF m c1 c2]
  show ?thesis
    using th m a by (simp add: T_c_in_def T_h_in_def dTmin_def)
qed

text \<open>
  Claim C7, as amended. For every \<open>FlashSeparator\<close> that the constructor builds, the
  vapor mass flow is the float product \<open>x_in * m_dot\<close> and the liquid mass flow is the
  float product \<open>(1 - x_in) * m_dot\<close>, each rounded to the nearest float, with
  \<open>1 - x_in\<close> rounded before. Their sum is \<open>m_dot\<close> up to rounding only: for a
  quality between 0 and 1 the sum of the two attributes differs from \<open>m_dot\<close> by at most
  \<open>4 * 2 ^ - 53 * \<bar>m_dot\<bar> + 2 ^ - 1074\<close>. For such a quality and a finite
  \<open>m_dot\<close> both products are finite, so the constructor of the model has a result. In
  the Propane scenario with \<open>m_dot = 1.5\<close> and an outlet quality between 0 and 1 the
  sum is within \<open>6 * 2 ^ - 53 + 2 ^ - 1074\<close> of 1.5.
\<close>

theorem FlashSeparator_mass_split:
  fixes fluid :: string and P x_in m_dot :: real and s_in :: "real option"
  shows
  "(FlashSeparator_init PropsSI fluid P x_in m_dot s_in = Some (Inr separator) \<longrightarrow>
      Fin (m_dot_vap separator) = fmul64 (Fin x_in) (Fin m_dot) \<and>
      Fin (m_dot_liq separator) = fmul64 (fsub64 (Fin 1) (Fin x_in)) (Fin m_dot) \<and>
      (0 \<le> x_in \<and> x_in \<le> 1 \<longrightarrow>
         \<bar>m_dot_vap separator + m_dot_liq separator - m_dot\<bar>
           \<le> 4 * unit_roundoff * \<bar>m_dot\<bar> + 2 * half_subnormal)) \<and>
   (0 \<le> x_in \<and> x_in \<le> 1 \<and> \<bar>m_dot\<bar> \<le> float_max \<longrightarrow>
      FlashSeparator_init PropsSI fluid P x_in m_dot s_in \<noteq> None) \<and>
   (Throttle_init PropsSI ''Propane'' 330 2500000 650000 (3 / 2) = Inr valve \<and>
    0 \<le> x_out valve \<and> x_out valve \<le> 1 \<and>
    FlashSeparator_init PropsSI ''Propane'' 650000 (x_out valve) (3 / 2)
      (Some (throttle.s_out valve)) = Some (Inr separator') \<longrightarrow>
      \<bar>m_dot_vap separator' + m_dot_liq separator' - 3 / 2\<bar>
        \<le> 6 * unit_roundoff + 2 * half_subnormal)"
proof (intro conjI impI)
  assume a: "FlashSeparator_init PropsSI fluid P x_in m_dot s_in = Some (Inr separator)"
  note s = FlashSeparator_init_split [OF a]
  show "Fin (m_dot_vap separator) = fmul64 (Fin x_in) (Fin m_dot)" by (rule s(1))
  show "Fin (m_dot_liq separator) = fmul64 (fsub64 (Fin 1) (Fin x_in)) (Fin m_dot)"
    by (rule s(2))
  assume "0 \<le> x_in \<and> x_in \<le> 1"
  then have "0 \<le> x_in" "x_in \<le> 1" by simp_all
  from mass_split_error [OF this s]
  show "\<bar>m_dot_vap separator + m_dot_liq separator - m_dot\<bar>
           \<le> 4 * unit_roundoff * \<bar>m_dot\<bar> + 2 * half_subnormal" .
next
  assume "0 \<le> x_in \<and> x_in \<le> 1 \<and> \<bar>m_dot\<bar> \<le> float_max"
  then have "0 \<le> x_in" "x_in \<le> 1" "\<bar>m_dot\<bar> \<le> float_max" by simp_all
  from mass_split_finite [OF this]
  show "FlashSeparator_init PropsSI fluid P x_in m_dot s_in \<noteq> None"
    by (auto simp: FlashSeparator_init_def)
next
  assume h: "Throttle_init PropsSI ''Propane'' 330 2500000 650000 (3 / 2) = Inr valve \<and>
    0 \<le> x_out valve \<and> x_out valve \<le> 1 \<and>
    FlashSeparator_init PropsSI ''Propane'' 650000 (x_out valve) (3 / 2)
      (Some (throttle.s_out valve)) = Some (Inr separator')"
  then have x: "0 \<le> x_out valve" "x_out valve \<le> 1"
    and a: "FlashSeparator_init PropsSI ''Propane'' 650000 (x_out valve) (3 / 2)
      (Some (throttle.s_out valve)) = Some (Inr separator')" by simp_all
  from mass_split_error [OF x FlashSeparator_init_split [OF a]]
  show "\<bar>m_dot_vap separator' + m_dot_liq separator' - 3 / 2\<bar>
        \<le> 6 * unit_roundoff + 2 * half_subnormal" by simp
qed

text \<open>
  The Propane scenario on the synthetic property function, whose quality is 0.5: the two
  mass flows are 0.75 and the hypotheses of the three parts of C7 hold.
\<close>

theorem FlashSeparator_mass_split_witness:
  "(FlashSeparator_init ideal_props ''Propane'' 650000 (1 / 2) (3 / 2) (Some 660000) =
     Some (Inr \<lparr>flash_separator.fluid = ''Propane'', flash_separator.P = 650000,
          x_in = 1 / 2, flash_separator.m_dot = 3 / 2, flash_separator.s_in = Some 660000,
          m_dot_vap = 3 / 4, m_dot_liq = 3 / 4,
          h_vap = 1300000, s_vap = 1300000, T_vap = 1300000,
          h_liq = 1300000, s_liq = 1300000, T_liq = 1300000\<rparr>) \<and>
    Fin (3 / 4) = fmul64 (Fin (1 / 2)) (Fin (3 / 2)) \<and>
    Fin (3 / 4) = fmul64 (fsub64 (Fin 1) (Fin (1 / 2))) (Fin (3 / 2)) \<and>
    (0::real) \<le> 1 / 2 \<and> (1 / 2 :: real) \<le> 1 \<and>
    \<bar>3 / 4 + 3 / 4 - 3 / 2 :: real\<bar> \<le> 4 * unit_roundoff * \<bar>3 / 2\<bar> + 2 * half_subnormal) \<and>
   (\<bar>3 / 2 :: real\<bar> \<le> float_max \<and>
    Throttle_init ideal_props ''Propane'' 330 2500000 650000 (3 / 2) =
     Inr \<lparr>throttle.fluid = ''Propane'', T_in = 330, P_in = 2500000, P_out = 650000,
          throttle.m_dot = 3 / 2, h_in = 330000, throttle.s_in = 660,
          throttle.h_out = 330000, throttle.s_out = 660000, x_out = 1 / 2\<rparr> \<and>
    \<bar>3 / 4 + 3 / 4 - 3 / 2 :: real\<bar> \<le> 6 * unit_roundoff + 2 * half_subnormal)"
proof -
  let ?sep = "\<lparr>flash_separator.fluid = ''Propane'', flash_separator.P = 650000,
          x_in = 1 / 2, flash_separator.m_dot = 3 / 2, flash_separator.s_in = Some 660000,
          m_dot_vap = 3 / 4, m_dot_liq = 3 / 4,
          h_vap = 1300000, s_vap = 1300000, T_vap = 1300000,
          h_liq = 1300000, s_liq = 1300000, T_liq = 1300000\<rparr>"
  let ?valve = "\<lparr>throttle.fluid = ''Propane'', T_in = 330, P_in = 2500000, P_out = 650000,
          throttle.m_dot = 3 / 2, h_in = 330000, throttle.s_in = 660,
          throttle.h_out = 330000, throttle.s_out = 660000, x_out = 1 / 2\<rparr>"
  have v: "Throttle_init ideal_props ''Propane'' 330 2500000 650000 (3 / 2) = Inr ?valve"
    by (simp add: unit_eval)
  have p1: "fmul64 (Fin (1 / 2)) (Fin (3 / 2)) = Fin (3 / 4)"
    by (simp add: b64_eval)
  have p2: "fmul64 (fsub64 (Fin 1) (Fin (1 / 2))) (Fin (3 / 2)) = Fin (3 / 4)"
    by (simp add: b64_eval)
  have s: "FlashSeparator_init ideal_props ''Propane'' 650000 (1 / 2) (3 / 2) (Some 660000) =
     Some (Inr ?sep)"
    by (simp add: FlashSeparator_init_def p1 p2 and_then_def ideal_props_def)
  have m: "\<bar>3 / 2 :: real\<bar> \<le> float_max"
    by (simp add: float_max_def mant_dig_def max_exp_def)
  note th = FlashSeparator_mass_split
    [of ideal_props "''Propane''" 650000 "1 / 2" "3 / 2" "Some 660000" ?sep ?valve ?sep]
  have a: "\<bar>3 / 4 + 3 / 4 - 3 / 2 :: real\<bar> \<le> 4 * unit_roundoff * \<bar>3 / 2\<bar> + 2 * half_subnormal"
    using th s by simp
  have b: "\<bar>3 / 4 + 3 / 4 - 3 / 2 :: real\<bar> \<le> 6 * unit_roundoff + 2 * half_subnormal"
    using th s v by simp
  show ?thesis
    using a b s v m p1 p2 by simp
qed

text \<open>
  Claim C7 as first stated says that the two mass flows add up to \<open>m_dot\<close> exactly.
  For the float \<open>x_in = 0.3\<close> and \<open>m_dot = 1.5\<close> the constructor stores
  \<open>m_dot_vap = 0.44999999999999996\<close> and \<open>m_dot_liq = 1.0499999999999998\<close>; their
  sum, exact or as the float addition returns it, is \<open>1.4999999999999998\<close>, which is
  less than 1.5.
\<close>

theorem FlashSeparator_mass_split_counterexample:
  "FlashSeparator_init ideal_props ''Propane'' 650000 (5404319552844595 / 2 ^ 54) (3 / 2) None =
     Some (Inr \<lparr>flash_separator.fluid = ''Propane'', flash_separator.P = 650000,
          x_in = 5404319552844595 / 2 ^ 54, flash_separator.m_dot = 3 / 2,
          flash_separator.s_in = None,
          m_dot_vap = 2026619832316723 / 2 ^ 52, m_dot_liq = 1182194902184755 / 2 ^ 50,
          h_vap = 1300000, s_vap = 1300000, T_vap = 1300000,
          h_liq = 1300000, s_liq = 1300000, T_liq = 1300000\<rparr>) \<and>
   is_b64 (5404319552844595 / 2 ^ 54) \<and> is_b64 (3 / 2) \<and>
   (2026619832316723 / 2 ^ 52 + 1182194902184755 / 2 ^ 50 :: real)
     = 6755399441055743 / 2 ^ 52 \<and>
   fadd64 (Fin (2026619832316723 / 2 ^ 52)) (Fin (1182194902184755 / 2 ^ 50))
     = Fin (6755399441055743 / 2 ^ 52) \<and>
   (6755399441055743 / 2 ^ 52 :: real) < 3 / 2"
proof -
  have p1: "fmul64 (Fin (5404319552844595 / 2 ^ 54)) (Fin (3 / 2))
      = Fin (2026619832316723 / 2 ^ 52)"
    by (simp add: b64_eval)
  have p2: "fsub64 (Fin 1) (Fin (5404319552844595 / 2 ^ 54)) = Fin (3152519739159347 / 2 ^ 52)"
    by (simp add: b64_eval)
  have p3: "fmul64 (Fin (3152519739159347 / 2 ^ 52)) (Fin (3 / 2))
      = Fin (1182194902184755 / 2 ^ 50)"
    by (simp add: b64_eval)
  have p4: "fadd64 (Fin (2026619832316723 / 2 ^ 52)) (Fin (1182194902184755 / 2 ^ 50))
     = Fin (6755399441055743 / 2 ^ 52)"
    by (simp add: b64_eval)
  have f1: "is_b64 (5404319552844595 / 2 ^ 54)"
    by (simp add: is_b64_def b64_eval)
  have f2: "is_b64 (3 / 2)"
    by (simp add: is_b64_def b64_eval)
  have s: "FlashSeparator_init ideal_props ''Propane'' 650000 (5404319552844595 / 2 ^ 54)
      (3 / 2) None =
     Some (Inr \<lparr>flash_separator.fluid = ''Propane'', flash_separator.P = 650000,
          x_in = 5404319552844595 / 2 ^ 54, flash_separator.m_dot = 3 / 2,
          flash_separator.s_in = None,
          m_dot_vap = 2026619832316723 / 2 ^ 52, m_dot_liq = 1182194902184755 / 2 ^ 50,
          h_vap = 1300000, s_vap = 1300000, T_vap = 1300000,
          h_liq = 1300000, s_liq = 1300000, T_liq = 1300000\<rparr>)"
    unfolding FlashSeparator_init_def p1 p2 p3
    by (simp add: and_then_def ideal_props_def)
  show ?thesis
    using s p4 f1 f2 by simp
qed

text \<open>
  Claim C8. A \<open>Mixer\<close> that has been constructed has
  \<open>m_dot_out = m_dot_1 + m_dot_2\<close>, which is not zero (a zero sum raises in the
  division and no mixer is made), and \<open>h_out\<close> is the flow-weighted average
  \<open>(m_dot_1 * h_1 + m_dot_2 * h_2) / (m_dot_1 + m_dot_2)\<close>. For the inlet streams
  \<open>h_1 = 100000\<close>, \<open>m_dot_1 = 1\<close> and \<open>h_2 = 300000\<close>, \<open>m_dot_2 = 1\<close> the
  outlet enthalpy is 200000.
\<close>

theorem Mixer_energy_balance:
  fixes fluid :: string and h_1 s_1 m_dot_1 h_2 s_2 m_dot_2 P :: real
  shows
  "(Mixer_init PropsSI fluid h_1 s_1 m_dot_1 h_2 s_2 m_dot_2 P = Inr mx \<longrightarrow>
      m_dot_out mx = m_dot_1 + m_dot_2 \<and> m_dot_1 + m_dot_2 \<noteq> 0 \<and>
      mixer.h_out mx = (m_dot_1 * h_1 + m_dot_2 * h_2) / (m_dot_1 + m_dot_2)) \<and>
   (Mixer_init PropsSI fluid 100000 s_1 1 300000 s_2 1 P = Inr mx' \<longrightarrow>
      mixer.h_out mx' = 200000)"
  by (auto simp: Mixer_init_def and_then_def py_div_def Let_def split: sum.splits if_splits)

text \<open>
  The scenario of C8 on the synthetic property function.
\<close>

theorem Mixer_energy_balance_witness:
  "Mixer_init ideal_props ''Propane'' 100000 500 1 300000 900 1 650000 =
     Inr \<lparr>mixer.fluid = ''Propane'', mixer.P = 650000, h_1 = 100000, s_1 = 500, m_dot_1 = 1,
          h_2 = 300000, s_2 = 900, m_dot_2 = 1, m_dot_out = 2, mixer.h_out = 200000,
          T_out = 200, mixer.s_out = 400000\<rparr> \<and>
   (2::real) = 1 + 1 \<and> (1::real) + 1 \<noteq> 0 \<and>
   (200000::real) = (1 * 100000 + 1 * 300000) / (1 + 1)"
proof -
  have m: "Mixer_init ideal_props ''Propane'' 100000 500 1 300000 900 1 650000 =
     Inr \<lparr>mixer.fluid = ''Propane'', mixer.P = 650000, h_1 = 100000, s_1 = 500, m_dot_1 = 1,
          h_2 = 300000, s_2 = 900, m_dot_2 = 1, m_dot_out = 2, mixer.h_out = 200000,
          T_out = 200, mixer.s_out = 400000\<rparr>"
    by (simp add: unit_eval)
  note th = Mixer_energy_balance
    [of ideal_props "''Propane''" 100000 500 1 300000 900 1 650000]
  show ?thesis
    using th m by simp
qed

text \<open>
  Claim C9. A \<open>Throttle\<close> that has been constructed has \<open>h_out = h_in\<close>, the
  enthalpy that the property function gave for the inlet state, whatever the property
  function returns for the entropy and the quality of the outlet.
\<close>

theorem Throttle_isenthalpic:
  fixes fluid :: string and T_in P_in P_out m_dot :: real
  assumes "Throttle_init PropsSI fluid T_in P_in P_out m_dot = Inr valve"
  shows "throttle.h_out valve = throttle.h_in valve \<and>
         PropsSI ''H'' ''T'' (Fin T_in) ''P'' (Fin P_in) fluid = Inr (throttle.h_in valve)"
  using assms
  by (auto simp: Throttle_init_def and_then_def Let_def split: sum.splits)

text \<open>
  The valve of the Propane scenario on the synthetic property function.
\<close>

theorem Throttle_isenthalpic_witness:
  "Throttle_init ideal_props ''Propane'' 330 2500000 650000 (3 / 2) =
     Inr \<lparr>throttle.fluid = ''Propane'', T_in = 330, P_in = 2500000, P_out = 650000,
          throttle.m_dot = 3 / 2, h_in = 330000, throttle.s_in = 660,
          throttle.h_out = 330000, throttle.s_out = 660000, x_out = 1 / 2\<rparr> \<and>
   throttle.h_out \<lparr>throttle.fluid = ''Propane'', T_in = 330, P_in = 2500000, P_out = 650000,
          throttle.m_dot = 3 / 2, h_in = 330000, throttle.s_in = 660,
          throttle.h_out = 330000, throttle.s_out = 660000, x_out = 1 / 2\<rparr> = 330000 \<and>
   ideal_props ''H'' ''T'' (Fin 330) ''P'' (Fin 2500000) ''Propane'' = Inr 330000"
proof -
  have i: "Throttle_init ideal_props ''Propane'' 330 2500000 650000 (3 / 2) =
     Inr \<lparr>throttle.fluid = ''Propane'', T_in = 330, P_in = 2500000, P_out = 650000,
          throttle.m_dot = 3 / 2, h_in = 330000, throttle.s_in = 660,
          throttle.h_out = 330000, throttle.s_out = 660000, x_out = 1 / 2\<rparr>"
    by (simp add: unit_eval)
  show ?thesis
    using Throttle_isenthalpic [OF i] i by simp
qed

text \<open>
  Claim C10. \<open>exergy_destruction\<close> leaves a \<open>FlashSeparator\<close> whose \<open>s_in\<close>
  is set as it is. On one whose \<open>s_in\<close> is \<open>None\<close>, a call that returns has
  derived the inlet entropy by the two lookups and stored it in \<open>s_in\<close>, changing no
  other attribute, and a further call with the same \<open>T0\<close> and the same property
  function returns the same value and leaves the object as the first call left it. A call
  that raises changes nothing. The other methods are the constructor, which builds the
  object, and \<open>__repr__\<close>, which assigns no attribute and is a function of the object
  alone; what it shows is the same before and after a call of \<open>exergy_destruction\<close>.
\<close>

theorem FlashSeparator_exergy_destruction_frame:
  "(flash_separator.s_in self = Some s \<longrightarrow>
      FlashSeparator_exergy_destruction PropsSI self T0 =
        (Inr (T0 * entropy_generation self s), self)) \<and>
   (flash_separator.s_in self = None \<and>
    FlashSeparator_exergy_destruction PropsSI self T0 = (Inr v, self') \<longrightarrow>
      (\<exists>h_mix s'.
         PropsSI ''H'' ''P'' (Fin (flash_separator.P self)) ''Q'' (Fin (x_in self))
           (flash_separator.fluid self) = Inr h_mix \<and>
         PropsSI ''S'' ''H'' (Fin h_mix) ''P'' (Fin (flash_separator.P self))
           (flash_separator.fluid self) = Inr s' \<and>
         self' = self\<lparr>flash_separator.s_in := Some s'\<rparr> \<and>
         v = T0 * entropy_generation self s') \<and>
      FlashSeparator_exergy_destruction PropsSI self' T0 = (Inr v, self')) \<and>
   (FlashSeparator_exergy_destruction PropsSI self T0 = (Inl e, self'') \<longrightarrow> self'' = self) \<and>
   FlashSeparator_repr (snd (FlashSeparator_exergy_destruction PropsSI self T0)) =
     FlashSeparator_repr self"
  by (auto simp: FlashSeparator_exergy_destruction_def entropy_generation_def
        FlashSeparator_repr_def split: option.splits sum.splits)

text \<open>
  A separator with the inlet entropy supplied, one without it (first and second call),
  and a call that fails on a property function that always raises.
\<close>

theorem FlashSeparator_exergy_destruction_frame_witness:
  "FlashSeparator_exergy_destruction ideal_props
     \<lparr>flash_separator.fluid = ''Propane'', flash_separator.P = 650000, x_in = 1 / 2,
      flash_separator.m_dot = 3 / 2, flash_separator.s_in = Some 660000,
      m_dot_vap = 3 / 4, m_dot_liq = 3 / 4, h_vap = 1300000, s_vap = 1300000,
      T_vap = 1300000, h_liq = 1300000, s_liq = 1300000, T_liq = 1300000\<rparr> 300 =
     (Inr 288000000,
      \<lparr>flash_separator.fluid = ''Propane'', flash_separator.P = 650000, x_in = 1 / 2,
       flash_separator.m_dot = 3 / 2, flash_separator.s_in = Some 660000,
       m_dot_vap = 3 / 4, m_dot_liq = 3 / 4, h_vap = 1300000, s_vap = 1300000,
       T_vap = 1300000, h_liq = 1300000, s_liq = 1300000, T_liq = 1300000\<rparr>) \<and>
   FlashSeparator_exergy_destruction ideal_props
     \<lparr>flash_separator.fluid = ''Propane'', flash_separator.P = 650000, x_in = 1 / 2,
      flash_separator.m_dot = 3 / 2, flash_separator.s_in = None,
      m_dot_vap = 3 / 4, m_dot_liq = 3 / 4, h_vap = 1300000, s_vap = 1300000,
      T_vap = 1300000, h_liq = 1300000, s_liq = 1300000, T_liq = 1300000\<rparr> 300 =
     (Inr (- 585000000),
      \<lparr>flash_separator.fluid = ''Propane'', flash_separator.P = 650000, x_in = 1 / 2,
       flash_separator.m_dot = 3 / 2, flash_separator.s_in = Some 2600000,
       m_dot_vap = 3 / 4, m_dot_liq = 3 / 4, h_vap = 1300000, s_vap = 1300000,
       T_vap = 1300000, h_liq = 1300000, s_liq = 1300000, T_liq = 1300000\<rparr>) \<and>
   FlashSeparator_exergy_destruction ideal_props
     \<lparr>flash_separator.fluid = ''Propane'', flash_separator.P = 650000, x_in = 1 / 2,
      flash_separator.m_dot = 3 / 2, flash_separator.s_in = Some 2600000,
      m_dot_vap = 3 / 4, m_dot_liq = 3 / 4, h_vap = 1300000, s_vap = 1300000,
      T_vap = 1300000, h_liq = 1300000, s_liq = 1300000, T_liq = 1300000\<rparr> 300 =
     (Inr (- 585000000),
      \<lparr>flash_separator.fluid = ''Propane'', flash_separator.P = 650000, x_in = 1 / 2,
       flash_separator.m_dot = 3 / 2, flash_separator.s_in = Some 2600000,
       m_dot_vap = 3 / 4, m_dot_liq = 3 / 4, h_vap = 1300000, s_vap = 1300000,
       T_vap = 1300000, h_liq = 1300000, s_liq = 1300000, T_liq = 1300000\<rparr>) \<and>
   FlashSeparator_exergy_destruction failing_props
     \<lparr>flash_separator.fluid = ''Propane'', flash_separator.P = 650000, x_in = 1 / 2,
      flash_separator.m_dot = 3 / 2, flash_separator.s_in = None,
      m_dot_vap = 3 / 4, m_dot_liq = 3 / 4, h_vap = 1300000, s_vap = 1300000,
      T_vap = 1300000, h_liq = 1300000, s_liq = 1300000, T_liq = 1300000\<rparr> 300 =
     (Inl (ValueError ''unknown fluid''),
      \<lparr>flash_separator.fluid = ''Propane'', flash_separator.P = 650000, x_in = 1 / 2,
       flash_separator.m_dot = 3 / 2, flash_separator.s_in = None,
       m_dot_vap = 3 / 4, m_dot_liq = 3 / 4, h_vap = 1300000, s_vap = 1300000,
       T_vap = 1300000, h_liq = 1300000, s_liq = 1300000, T_liq = 1300000\<rparr>)"
proof -
  let ?sep = "\<lambda>s. \<lparr>flash_separator.fluid = ''Propane'', flash_separator.P = 650000,
      x_in = 1 / 2, flash_separator.m_dot = 3 / 2, flash_separator.s_in = s,
      m_dot_vap = 3 / 4, m_dot_liq = 3 / 4, h_vap = 1300000, s_vap = 1300000,
      T_vap = 1300000, h_liq = 1300000, s_liq = 1300000, T_liq = 1300000\<rparr>"
  have first: "FlashSeparator_exergy_destruction ideal_props (?sep None) 300 =
      (Inr (- 585000000), ?sep (Some 2600000))"
    by (simp add: unit_eval)
  have fails: "FlashSeparator_exergy_destruction failing_props (?sep None) 300 =
      (Inl (ValueError ''unknown fluid''), ?sep None)"
    by (simp add: unit_eval failing_props_def)
  note given = FlashSeparator_exergy_destruction_frame
    [of "?sep (Some 660000)" 660000 ideal_props 300]
  note derived = FlashSeparator_exergy_destruction_frame
    [of "?sep None" _ ideal_props 300 "- 585000000" "?sep (Some 2600000)"]
  note failed = FlashSeparator_exergy_destruction_frame
    [of "?sep None" _ failing_props 300 _ _ "ValueError ''unknown fluid''" "?sep None"]
  show ?thesis
    using given derived failed first fails
    by (simp add: entropy_generation_def)
qed

end
